theory Spec2Isabelle
  imports
    Complex_Main
    "HOL-Library.Char_ord"
    "HOL-Library.List_Lexorder"
    "HOL-Library.Multiset"
begin

section \<open>Tables\<close>

text \<open>
  The dashboard script \<^verbatim>\<open>finance_titan3.py\<close> works on three pandas data frames read from
  an uploaded workbook. A cell of a sheet is a number, a text or missing (pandas' \<^verbatim>\<open>NaN\<close>).
  Numbers are taken as exact rationals: the rounding of the binary floating point numbers
  pandas computes with, and its infinities, are outside this development. So are the dates
  and the truth values that a sheet can also hold: every statement below is about tables
  whose cells are of the three kinds of \<open>cell\<close>.
\<close>

datatype cell = Num rat | Str string | NaN

fun is_text :: "cell \<Rightarrow> bool" where
  "is_text (Str s) = True"
| "is_text _ = False"

fun is_number :: "cell \<Rightarrow> bool" where
  "is_number (Num x) = True"
| "is_number _ = False"

text \<open>
  A data frame is rectangular: every row has a cell under every column label. A row is
  the function from labels to cells, \<open>columns\<close> lists the labels the frame has, in order;
  the script never reads a row at a label it has not found in \<open>columns\<close> without the
  access raising \<^verbatim>\<open>KeyError\<close>, which the definitions below write out where the script
  has no guard. A row has one cell under a label, so a frame is rendered as pandas has it
  where its labels are distinct; of the frames in which a label is repeated (line 49 can
  make two labels equal), the definitions below say only that \<open>numeric_coercion\<close> and
  \<open>executive_options\<close> raise on them, at the two places where pandas is sure to.
\<close>

type_synonym row = "string \<Rightarrow> cell"

record dataframe =
  columns :: "string list"
  rows :: "row list"

text \<open>\<^verbatim>\<open>df[c] = values\<close>: an existing column is overwritten in place, a new one is appended.\<close>

definition set_column :: "string \<Rightarrow> (row \<Rightarrow> cell) \<Rightarrow> dataframe \<Rightarrow> dataframe" where
  "set_column c f df =
     \<lparr>columns = (if c \<in> set (columns df) then columns df else columns df @ [c]),
      rows = map (\<lambda>r. r(c := f r)) (rows df)\<rparr>"

text \<open>\<^verbatim>\<open>df[cs] = g(df[cs])\<close> for a cell-wise \<open>g\<close> and labels \<open>cs\<close> that the frame has.\<close>

definition update_columns :: "string list \<Rightarrow> (cell \<Rightarrow> cell) \<Rightarrow> dataframe \<Rightarrow> dataframe" where
  "update_columns cs g df =
     \<lparr>columns = columns df,
      rows = map (\<lambda>r k. if k \<in> set cs then g (r k) else r k) (rows df)\<rparr>"

section \<open>Errors\<close>

text \<open>
  The script stops itself with \<^verbatim>\<open>st.error\<close> or \<^verbatim>\<open>st.warning\<close> followed by \<^verbatim>\<open>st.stop()\<close>
  in four places; anywhere else a Python exception ends the run uncaught. \<open>ZeroDivision\<close>
  is the outcome of dividing by zero: between Python numbers (a column of dtype object) it
  is the exception \<^verbatim>\<open>ZeroDivisionError\<close>, between floats it is an infinity or, for 0 / 0,
  \<^verbatim>\<open>NaN\<close>; no cell of this development holds an infinity, so the outcome is kept apart.
\<close>

datatype exn = KeyError string | TypeError | AttributeError | ZeroDivision

datatype halt =
    ReadError               \<comment> \<open>line 44, "Error reading Excel. Check sheet names."\<close>
  | MonthMissing            \<comment> \<open>line 52, "Please enter Month to proceed"\<close>
  | MissingColumn string    \<comment> \<open>line 71, "Missing column in AR_Aging: col"\<close>
  | NoData                  \<comment> \<open>line 93, "No data available."\<close>
  | Uncaught exn

definition and_then :: "halt + 'a \<Rightarrow> ('a \<Rightarrow> halt + 'b) \<Rightarrow> halt + 'b" where
  "and_then m f = (case m of Inl h \<Rightarrow> Inl h | Inr x \<Rightarrow> f x)"

definition uncaught :: "exn + 'a \<Rightarrow> halt + 'a" where
  "uncaught m = (case m of Inl x \<Rightarrow> Inl (Uncaught x) | Inr v \<Rightarrow> Inr v)"

section \<open>Validation and calculations on the aging table (lines 63 to 90)\<close>

definition aging_cols :: "string list" where
  "aging_cols = [''0-30'', ''31-60'', ''61-90'', ''91-120'',
                 ''121-150'', ''151-180'', ''181-365'', ''Above 365'']"

definition required_ar_cols :: "string list" where
  "required_ar_cols = [''Customer Name'', ''Executive Name'', ''Amount''] @ aging_cols"

definition over_90_cols :: "string list" where
  "over_90_cols = [''91-120'', ''121-150'', ''151-180'', ''181-365'', ''Above 365'']"

text \<open>
  The loop of lines 69 to 72 stops the script at the first required label, in the order of
  \<open>required_ar_cols\<close>, that the aging table lacks.
\<close>

definition first_missing :: "dataframe \<Rightarrow> string option" where
  "first_missing df = List.find (\<lambda>col. col \<notin> set (columns df)) required_ar_cols"

text \<open>
  \<^verbatim>\<open>pd.to_numeric(..., errors="coerce")\<close> keeps a number, reads a text as a number where it
  can and gives \<^verbatim>\<open>NaN\<close> where it cannot. The grammar of numeric texts belongs to pandas;
  it is the parameter \<open>parse\<close>.
\<close>

fun to_numeric :: "(string \<Rightarrow> rat option) \<Rightarrow> cell \<Rightarrow> cell" where
  "to_numeric parse (Num x) = Num x"
| "to_numeric parse (Str s) = (case parse s of Some x \<Rightarrow> Num x | None \<Rightarrow> NaN)"
| "to_numeric parse NaN = NaN"

fun fillna :: "rat \<Rightarrow> cell \<Rightarrow> cell" where
  "fillna v NaN = Num v"
| "fillna v c = c"

definition coerce :: "(string \<Rightarrow> rat option) \<Rightarrow> cell \<Rightarrow> cell" where
  "coerce parse c = fillna 0 (to_numeric parse c)"

text \<open>Lines 74 to 78: the eight bucket columns, then the amount column.\<close>

definition coerce_columns :: "(string \<Rightarrow> rat option) \<Rightarrow> dataframe \<Rightarrow> dataframe" where
  "coerce_columns parse df =
     update_columns [''Amount''] (coerce parse) (update_columns aging_cols (coerce parse) df)"

text \<open>
  Line 78 reads \<^verbatim>\<open>ar_df["Amount"]\<close>. Where two columns bear the label, as "Amount" and
  "Amount " do once line 49 has stripped them, this is a frame and not a column, and
  \<^verbatim>\<open>pd.to_numeric\<close> refuses a frame with \<^verbatim>\<open>TypeError\<close>, whatever \<^verbatim>\<open>errors\<close> is set to. The
  step is reached only after the validation has found the nine labels.
\<close>

definition numeric_coercion :: "(string \<Rightarrow> rat option) \<Rightarrow> dataframe \<Rightarrow> exn + dataframe" where
  "numeric_coercion parse df =
     (if 1 < count_list (columns df) ''Amount'' then Inl TypeError
      else Inr (coerce_columns parse df))"

text \<open>
  \<^verbatim>\<open>df[cs].sum(axis=1)\<close> adds the cells of one row; pandas skips \<^verbatim>\<open>NaN\<close> there. The script
  sums coerced columns only, whose cells are all numbers (\<open>coerce_columns_Num\<close> below), so
  the value given to a text is never used.
\<close>

fun num_of :: "cell \<Rightarrow> rat" where
  "num_of (Num x) = x"
| "num_of _ = 0"

definition row_sum :: "string list \<Rightarrow> row \<Rightarrow> cell" where
  "row_sum cs r = Num (sum_list (map (\<lambda>c. num_of (r c)) cs))"

text \<open>The comparison \<^verbatim>\<open>ar_df["Amount"] > 0\<close>; it is false on \<^verbatim>\<open>NaN\<close>.\<close>

fun gt_zero :: "cell \<Rightarrow> bool" where
  "gt_zero (Num x) = (0 < x)"
| "gt_zero _ = False"

text \<open>Lines 80 to 90.\<close>

definition derive_columns :: "dataframe \<Rightarrow> dataframe" where
  "derive_columns df =
     set_column ''>90 Days'' (row_sum over_90_cols)
       (set_column ''Total Outstanding''
          (\<lambda>r. if gt_zero (r ''Amount'') then r ''Amount'' else r ''Aging Sum'')
          (set_column ''Aging Sum'' (row_sum aging_cols) df))"

text \<open>Lines 74 to 90 on a table in which the label Amount is not repeated.\<close>

definition ar_calculations :: "(string \<Rightarrow> rat option) \<Rightarrow> dataframe \<Rightarrow> dataframe" where
  "ar_calculations parse df = derive_columns (coerce_columns parse df)"

section \<open>Column names (lines 48 and 49)\<close>

text \<open>
  \<^verbatim>\<open>str.strip()\<close> removes the white space at both ends of a label. Characters are bytes
  here, so the white space is the ASCII one.
\<close>

definition is_space :: "char \<Rightarrow> bool" where
  "is_space c = (c \<in> {CHR 0x09, CHR 0x0A, CHR 0x0B, CHR 0x0C, CHR 0x0D,
                        CHR 0x1C, CHR 0x1D, CHR 0x1E, CHR 0x1F, CHR 0x20})"

definition strip :: "string \<Rightarrow> string" where
  "strip s = rev (dropWhile is_space (rev (dropWhile is_space s)))"

text \<open>
  Renaming the labels leaves the cells where they are: the cell under a new label is the
  cell the row had under the label it comes from (the first such label, should two labels
  differ in their outer white space only).
\<close>

definition strip_columns :: "dataframe \<Rightarrow> dataframe" where
  "strip_columns df =
     \<lparr>columns = map strip (columns df),
      rows = map (\<lambda>r k. case List.find (\<lambda>c. strip c = k) (columns df) of
                          Some c \<Rightarrow> r c | None \<Rightarrow> NaN) (rows df)\<rparr>"

section \<open>The executive filter (lines 99 to 105)\<close>

text \<open>\<^verbatim>\<open>Series.dropna()\<close> and \<^verbatim>\<open>Series.unique()\<close>, the latter in order of first appearance.\<close>

definition dropna :: "cell list \<Rightarrow> cell list" where
  "dropna cs = filter (\<lambda>c. c \<noteq> NaN) cs"

definition unique :: "cell list \<Rightarrow> cell list" where
  "unique cs = rev (remdups (rev cs))"

text \<open>
  Python's \<^verbatim>\<open>sorted\<close> compares texts with texts and numbers with numbers; it raises
  \<^verbatim>\<open>TypeError\<close> when it has to compare a text with a number.
\<close>

definition sorted_cells :: "cell list \<Rightarrow> exn + cell list" where
  "sorted_cells cs =
     (if list_all is_text cs then
        Inr (map Str (sort (map (\<lambda>c. case c of Str s \<Rightarrow> s | _ \<Rightarrow> []) cs)))
      else if list_all is_number cs then
        Inr (map Num (sort (map num_of cs)))
      else Inl TypeError)"

text \<open>
  Line 99: \<^verbatim>\<open>["All"] + sorted(ar_df["Executive Name"].dropna().unique())\<close>. Where two columns
  bear the label, \<^verbatim>\<open>ar_df["Executive Name"]\<close> is a frame, which has no \<^verbatim>\<open>unique\<close>.
\<close>

definition executive_options :: "dataframe \<Rightarrow> exn + cell list" where
  "executive_options df =
     (if ''Executive Name'' \<notin> set (columns df) then Inl (KeyError ''Executive Name'')
      else if 1 < count_list (columns df) ''Executive Name'' then Inl AttributeError
      else (case sorted_cells (unique (dropna (map (\<lambda>r. r ''Executive Name'') (rows df)))) of
              Inl x \<Rightarrow> Inl x
            | Inr names \<Rightarrow> Inr (Str ''All'' # names)))"

text \<open>
  \<^verbatim>\<open>st.sidebar.selectbox\<close> returns the option the user has picked; it is the first option
  while the user has picked none of those on offer.
\<close>

fun selectbox :: "cell list \<Rightarrow> cell \<Rightarrow> cell" where
  "selectbox [] choice = NaN"
| "selectbox (opt # opts) choice = (if choice \<in> set (opt # opts) then choice else opt)"

text \<open>The comparison \<^verbatim>\<open>df["Executive Name"] == selected_exec\<close>; \<^verbatim>\<open>NaN\<close> equals nothing.\<close>

definition cell_eq :: "cell \<Rightarrow> cell \<Rightarrow> bool" where
  "cell_eq a b = (a = b \<and> a \<noteq> NaN)"

text \<open>
  \<^verbatim>\<open>df[df["Executive Name"] == selected_exec]\<close>. Nothing has checked that the targets and
  the invoices have the column: the access raises \<^verbatim>\<open>KeyError\<close> where they do not.
\<close>

definition filter_exec :: "cell \<Rightarrow> dataframe \<Rightarrow> exn + dataframe" where
  "filter_exec sel df =
     (if ''Executive Name'' \<in> set (columns df) then
        Inr \<lparr>columns = columns df,
             rows = filter (\<lambda>r. cell_eq (r ''Executive Name'') sel) (rows df)\<rparr>
      else Inl (KeyError ''Executive Name''))"

section \<open>The executive performance view (lines 158 to 162)\<close>

text \<open>
  The targets table is not coerced. Arithmetic between two columns works cell by cell.
  Where one of the two cells is missing the result is missing, whatever the other cell
  is: pandas applies the operation of a column that holds texts to the pairs of
  non-missing cells only. A text paired with a number or with a text raises \<^verbatim>\<open>TypeError\<close>
  under the operations of the script, subtraction, division and multiplication by 100.
\<close>

fun arith :: "(rat \<Rightarrow> rat \<Rightarrow> rat) \<Rightarrow> cell \<Rightarrow> cell \<Rightarrow> exn + cell" where
  "arith f NaN b = Inr NaN"
| "arith f a NaN = Inr NaN"
| "arith f (Str s) b = Inl TypeError"
| "arith f a (Str s) = Inl TypeError"
| "arith f (Num x) (Num y) = Inr (Num (f x y))"

text \<open>Division: the quotient by zero is no number.\<close>

fun divide :: "cell \<Rightarrow> cell \<Rightarrow> exn + cell" where
  "divide NaN b = Inr NaN"
| "divide a NaN = Inr NaN"
| "divide (Str s) b = Inl TypeError"
| "divide a (Str s) = Inl TypeError"
| "divide (Num x) (Num y) = (if y = 0 then Inl ZeroDivision else Inr (Num (x / y)))"

text \<open>\<^verbatim>\<open>Series.replace(0, np.nan)\<close>.\<close>

definition replace_zero :: "cell \<Rightarrow> cell" where
  "replace_zero c = (if c = Num 0 then NaN else c)"

definition pending :: "row \<Rightarrow> exn + cell" where
  "pending r = arith (-) (r ''Target Amount'') (r ''Actual Collected'')"

definition achievement :: "row \<Rightarrow> exn + cell" where
  "achievement r =
     (case divide (r ''Actual Collected'') (replace_zero (r ''Target Amount'')) of
        Inl x \<Rightarrow> Inl x
      | Inr q \<Rightarrow>
          (case arith (*) q (Num 100) of
             Inl x \<Rightarrow> Inl x
           | Inr p \<Rightarrow> Inr (fillna 0 p)))"

text \<open>A column computed row by row; the first exception ends the computation.\<close>

fun try_map :: "('a \<Rightarrow> exn + 'b) \<Rightarrow> 'a list \<Rightarrow> exn + 'b list" where
  "try_map f [] = Inr []"
| "try_map f (x # xs) =
     (case f x of
        Inl e \<Rightarrow> Inl e
      | Inr y \<Rightarrow> (case try_map f xs of Inl e \<Rightarrow> Inl e | Inr ys \<Rightarrow> Inr (y # ys)))"

definition try_set_column :: "string \<Rightarrow> (row \<Rightarrow> exn + cell) \<Rightarrow> dataframe \<Rightarrow> exn + dataframe" where
  "try_set_column c f df =
     (case try_map (\<lambda>r. case f r of Inl e \<Rightarrow> Inl e | Inr v \<Rightarrow> Inr (r(c := v))) (rows df) of
        Inl e \<Rightarrow> Inl e
      | Inr rs \<Rightarrow>
          Inr \<lparr>columns = (if c \<in> set (columns df) then columns df else columns df @ [c]),
               rows = rs\<rparr>)"

definition executive_performance :: "dataframe \<Rightarrow> exn + dataframe" where
  "executive_performance df =
     (if ''Target Amount'' \<notin> set (columns df) then Inl (KeyError ''Target Amount'')
      else if ''Actual Collected'' \<notin> set (columns df) then Inl (KeyError ''Actual Collected'')
      else (case try_set_column ''Pending'' pending df of
              Inl e \<Rightarrow> Inl e
            | Inr df' \<Rightarrow> try_set_column ''Achievement %'' achievement df'))"

section \<open>The script\<close>

text \<open>
  A workbook is what \<^verbatim>\<open>pd.read_excel\<close> finds in the uploaded file: a table for each sheet
  name it has. The state of a run is the widgets' values (the upload, the month, the page,
  the executive picked) and the script's variables.
\<close>

type_synonym workbook = "string \<Rightarrow> dataframe option"

record env =
  uploaded_file :: "workbook option"
  month_input :: string
  page :: string
  exec_choice :: cell
  ar_df :: dataframe
  exec_df :: dataframe
  inv_df :: dataframe
  executives :: "cell list"
  selected_exec :: cell

text \<open>Lines 39 to 45: any failure to read one of the three sheets stops the script.\<close>

definition load_data :: "workbook \<Rightarrow> env \<Rightarrow> halt + env" where
  "load_data wb e =
     (case wb ''AR_Aging'' of
        None \<Rightarrow> Inl ReadError
      | Some a \<Rightarrow>
          (case wb ''Executive_Targets'' of
             None \<Rightarrow> Inl ReadError
           | Some x \<Rightarrow>
               (case wb ''Invoice_Details'' of
                  None \<Rightarrow> Inl ReadError
                | Some i \<Rightarrow> Inr (e\<lparr>ar_df := a, exec_df := x, inv_df := i\<rparr>))))"

definition clean_column_names :: "env \<Rightarrow> env" where
  "clean_column_names e =
     e\<lparr>ar_df := strip_columns (ar_df e),
       exec_df := strip_columns (exec_df e),
       inv_df := strip_columns (inv_df e)\<rparr>"

definition check_month :: "env \<Rightarrow> halt + env" where
  "check_month e = (if month_input e = [] then Inl MonthMissing else Inr e)"

definition attach_month :: "env \<Rightarrow> env" where
  "attach_month e =
     e\<lparr>ar_df := set_column ''Month'' (\<lambda>r. Str (month_input e)) (ar_df e),
       exec_df := set_column ''Month'' (\<lambda>r. Str (month_input e)) (exec_df e),
       inv_df := set_column ''Month'' (\<lambda>r. Str (month_input e)) (inv_df e)\<rparr>"

definition validate :: "env \<Rightarrow> halt + env" where
  "validate e =
     (case first_missing (ar_df e) of
        Some col \<Rightarrow> Inl (MissingColumn col)
      | None \<Rightarrow> Inr e)"

definition calculations :: "(string \<Rightarrow> rat option) \<Rightarrow> env \<Rightarrow> halt + env" where
  "calculations parse e =
     (case numeric_coercion parse (ar_df e) of
        Inl x \<Rightarrow> Inl (Uncaught x)
      | Inr df \<Rightarrow> Inr (e\<lparr>ar_df := derive_columns df\<rparr>))"

definition check_empty :: "env \<Rightarrow> halt + env" where
  "check_empty e = (if rows (ar_df e) = [] then Inl NoData else Inr e)"

definition select_executive :: "env \<Rightarrow> halt + env" where
  "select_executive e =
     (case executive_options (ar_df e) of
        Inl x \<Rightarrow> Inl (Uncaught x)
      | Inr opts \<Rightarrow>
          Inr (e\<lparr>executives := opts, selected_exec := selectbox opts (exec_choice e)\<rparr>))"

definition apply_filter :: "env \<Rightarrow> halt + env" where
  "apply_filter e =
     (if selected_exec e \<noteq> Str ''All'' then
        and_then (uncaught (filter_exec (selected_exec e) (ar_df e))) (\<lambda>a.
        and_then (uncaught (filter_exec (selected_exec e) (exec_df e))) (\<lambda>x.
        and_then (uncaught (filter_exec (selected_exec e) (inv_df e))) (\<lambda>i.
        Inr (e\<lparr>ar_df := a, exec_df := x, inv_df := i\<rparr>))))
      else Inr e)"

text \<open>Lines 37 to 105. Without an upload the block is skipped.\<close>

definition pipeline :: "(string \<Rightarrow> rat option) \<Rightarrow> env \<Rightarrow> halt + env" where
  "pipeline parse e =
     (case uploaded_file e of
        None \<Rightarrow> Inr e
      | Some wb \<Rightarrow>
          and_then (load_data wb e) (\<lambda>e1.
          and_then (check_month (clean_column_names e1)) (\<lambda>e2.
          and_then (validate (attach_month e2)) (\<lambda>e3.
          and_then (calculations parse e3) (\<lambda>e4.
          and_then (check_empty e4) (\<lambda>e5.
          and_then (select_executive e5) apply_filter))))))"

text \<open>
  Lines 154 to 162, reached when the block above has not stopped the script. Of the five
  pages this is the one embedded here; \<open>script\<close> is a run that shows it, or one of the other
  pages up to the end of the block above.
\<close>

definition page_executive_performance :: "env \<Rightarrow> halt + env" where
  "page_executive_performance e =
     (if uploaded_file e \<noteq> None \<and> page e = ''Executive Performance'' then
        (case executive_performance (exec_df e) of
           Inl x \<Rightarrow> Inl (Uncaught x)
         | Inr x \<Rightarrow> Inr (e\<lparr>exec_df := x\<rparr>))
      else Inr e)"

definition script :: "(string \<Rightarrow> rat option) \<Rightarrow> env \<Rightarrow> halt + env" where
  "script parse e = and_then (pipeline parse e) page_executive_performance"

section \<open>Notions used in the statements\<close>

text \<open>
  What the executive filter is claimed to do to one table: the columns stay, the rows kept
  are exactly those whose executive name is the selected one, in their order, and together
  with the rows dropped they make up the table.
\<close>

definition filtered_by :: "cell \<Rightarrow> dataframe \<Rightarrow> dataframe \<Rightarrow> bool" where
  "filtered_by sel df df' =
     (columns df' = columns df \<and>
      rows df' = filter (\<lambda>r. r ''Executive Name'' = sel) (rows df) \<and>
      mset (rows df') + mset (filter (\<lambda>r. r ''Executive Name'' \<noteq> sel) (rows df)) = mset (rows df))"

text \<open>
  The cells that \<open>pending\<close> and \<open>achievement\<close> return where they raise nothing
  (\<open>pending_Inr\<close> and \<open>achievement_Inr\<close> below).
\<close>

definition pending_value :: "row \<Rightarrow> cell" where
  "pending_value r =
     (case r ''Target Amount'' of
        Num t \<Rightarrow> (case r ''Actual Collected'' of Num a \<Rightarrow> Num (t - a) | _ \<Rightarrow> NaN)
      | _ \<Rightarrow> NaN)"

definition achievement_value :: "row \<Rightarrow> cell" where
  "achievement_value r =
     (case r ''Target Amount'' of
        Num t \<Rightarrow> (case r ''Actual Collected'' of
                    Num a \<Rightarrow> (if t = 0 then Num 0 else Num (a / t * 100))
                  | _ \<Rightarrow> Num 0)
      | _ \<Rightarrow> Num 0)"

text \<open>
  A text in one of the two amount columns of the targets table that meets, in its row, a
  cell of the other column that is not missing.
\<close>

definition text_meets_value :: "row \<Rightarrow> bool" where
  "text_meets_value r =
     (is_text (r ''Target Amount'') \<and> r ''Actual Collected'' \<noteq> NaN \<or>
      is_text (r ''Actual Collected'') \<and> r ''Target Amount'' \<noteq> NaN)"

text \<open>
  What a run of the script is given: the upload and the three widgets. The variables of the
  script are what an earlier run may have left behind.
\<close>

definition same_inputs :: "env \<Rightarrow> env \<Rightarrow> bool" where
  "same_inputs e1 e2 =
     (uploaded_file e1 = uploaded_file e2 \<and> month_input e1 = month_input e2 \<and>
      page e1 = page e2 \<and> exec_choice e1 = exec_choice e2)"

text \<open>The state after lines 39 to 58, when the three sheets have been read.\<close>

definition loaded :: "env \<Rightarrow> dataframe \<Rightarrow> dataframe \<Rightarrow> dataframe \<Rightarrow> env" where
  "loaded e a x i = attach_month (clean_column_names (e\<lparr>ar_df := a, exec_df := x, inv_df := i\<rparr>))"

section \<open>Example workbooks\<close>

text \<open>
  Concrete tables on which the theorems below are instantiated. \<open>spec_row\<close> is the row of
  the specification's example: no amount, 100 in the first bucket and 200 in the fourth.
\<close>

definition no_parse :: "string \<Rightarrow> rat option" where
  "no_parse s = None"

definition spec_row :: row where
  "spec_row = (\<lambda>k. NaN)
     (''Customer Name'' := Str ''Acme'', ''Executive Name'' := Str ''Asha'',
      ''Amount'' := Num 0, ''0-30'' := Num 100, ''31-60'' := Num 0, ''61-90'' := Num 0,
      ''91-120'' := Num 200, ''121-150'' := Num 0, ''151-180'' := Num 0,
      ''181-365'' := Num 0, ''Above 365'' := Num 0)"

definition spec_table :: dataframe where
  "spec_table = \<lparr>columns = required_ar_cols, rows = [spec_row]\<rparr>"

text \<open>A customer in credit: a negative first bucket, a text for the amount, a missing last bucket.\<close>

definition credit_row :: row where
  "credit_row = (\<lambda>k. NaN)
     (''Customer Name'' := Str ''Birch'', ''Executive Name'' := Str ''Ravi'',
      ''Amount'' := Str ''n/a'', ''0-30'' := Num (-100), ''31-60'' := Num 0, ''61-90'' := Num 0,
      ''91-120'' := Num 0, ''121-150'' := Num 0, ''151-180'' := Num 0,
      ''181-365'' := Num 0)"

definition credit_table :: dataframe where
  "credit_table = \<lparr>columns = required_ar_cols, rows = [credit_row]\<rparr>"

text \<open>Three targets: one on course, one with no target set, one whose target cell is empty.\<close>

definition targets_table :: dataframe where
  "targets_table =
     \<lparr>columns = [''Executive Name'', ''Target Amount'', ''Actual Collected''],
      rows = [(\<lambda>k. NaN)(''Executive Name'' := Str ''Asha'', ''Target Amount'' := Num 200,
                            ''Actual Collected'' := Num 80),
              (\<lambda>k. NaN)(''Executive Name'' := Str ''Ravi'', ''Target Amount'' := Num 0,
                            ''Actual Collected'' := Num 50),
              (\<lambda>k. NaN)(''Executive Name'' := Str ''Meena'', ''Actual Collected'' := Num 10)]\<rparr>"

definition invoices_table :: dataframe where
  "invoices_table =
     \<lparr>columns = [''Customer Name'', ''Invoice No'', ''Executive Name''],
      rows = [(\<lambda>k. NaN)(''Customer Name'' := Str ''Acme'', ''Invoice No'' := Num 1,
                            ''Executive Name'' := Str ''Asha''),
              (\<lambda>k. NaN)(''Customer Name'' := Str ''Birch'', ''Invoice No'' := Num 2,
                            ''Executive Name'' := Str ''Ravi'')]\<rparr>"

definition two_rows_table :: dataframe where
  "two_rows_table = \<lparr>columns = required_ar_cols, rows = [spec_row, credit_row]\<rparr>"

text \<open>The state of a run just before the filter, with one executive selected.\<close>

definition filter_env :: env where
  "filter_env =
     \<lparr>uploaded_file = None, month_input = ''Jan-2026'', page = ''Overview Dashboard'',
      exec_choice = Str ''Asha'', ar_df = two_rows_table, exec_df = targets_table,
      inv_df = invoices_table, executives = [Str ''All'', Str ''Asha'', Str ''Ravi''],
      selected_exec = Str ''Asha''\<rparr>"


text \<open>An aging sheet with a second amount column, whose header ends in a blank.\<close>

definition two_amounts_table :: dataframe where
  "two_amounts_table =
     \<lparr>columns = [''Customer Name'', ''Executive Name'', ''Amount'', ''Amount ''] @ aging_cols,
      rows = [spec_row(''Amount '' := Num 300)]\<rparr>"

text \<open>A targets sheet in which a target has not been set yet and says so.\<close>

definition text_target_table :: dataframe where
  "text_target_table =
     \<lparr>columns = [''Executive Name'', ''Target Amount'', ''Actual Collected''],
      rows = [(\<lambda>k. NaN)(''Executive Name'' := Str ''Asha'', ''Target Amount'' := Str ''TBD'',
                            ''Actual Collected'' := Num 80)]\<rparr>"

text \<open>The three targets and a fourth row: no target, and a remark where the amount goes.\<close>

definition open_targets_table :: dataframe where
  "open_targets_table =
     \<lparr>columns = columns targets_table,
      rows = rows targets_table @
        [(\<lambda>k. NaN)(''Executive Name'' := Str ''Kiran'', ''Actual Collected'' := Str ''n/a'')]\<rparr>"

text \<open>Two targets sheets with a column short: the executive's name, the target.\<close>

definition nameless_targets_table :: dataframe where
  "nameless_targets_table =
     \<lparr>columns = [''Executive'', ''Target Amount'', ''Actual Collected''],
      rows = [(\<lambda>k. NaN)(''Executive'' := Str ''Asha'', ''Target Amount'' := Num 200,
                            ''Actual Collected'' := Num 80)]\<rparr>"

definition targetless_targets_table :: dataframe where
  "targetless_targets_table =
     \<lparr>columns = [''Executive Name'', ''Actual Collected''],
      rows = [(\<lambda>k. NaN)(''Executive Name'' := Str ''Asha'', ''Actual Collected'' := Num 80)]\<rparr>"

text \<open>
  A workbook with the three sheets, and the state in which a run of the script starts on
  it: the month is given, no variable of the script is set.
\<close>

definition workbook_of :: "dataframe \<Rightarrow> dataframe \<Rightarrow> dataframe \<Rightarrow> workbook" where
  "workbook_of a x i =
     (\<lambda>s. None)(''AR_Aging'' \<mapsto> a, ''Executive_Targets'' \<mapsto> x, ''Invoice_Details'' \<mapsto> i)"

definition first_run :: "workbook \<Rightarrow> string \<Rightarrow> cell \<Rightarrow> env" where
  "first_run wb pg choice =
     \<lparr>uploaded_file = Some wb, month_input = ''Jan-2026'', page = pg, exec_choice = choice,
      ar_df = \<lparr>columns = [], rows = []\<rparr>, exec_df = \<lparr>columns = [], rows = []\<rparr>,
      inv_df = \<lparr>columns = [], rows = []\<rparr>, executives = [], selected_exec = NaN\<rparr>"

text \<open>An aging sheet in which one executive goes by a staff number.\<close>

definition staff_number_table :: dataframe where
  "staff_number_table =
     \<lparr>columns = required_ar_cols,
      rows = [spec_row, credit_row(''Executive Name'' := Num 1042)]\<rparr>"

text \<open>
  The workbook of the three example sheets, and a state that an earlier run on another
  upload has left behind.
\<close>

definition spec_workbook :: workbook where
  "spec_workbook = workbook_of spec_table targets_table invoices_table"

definition stale_run :: env where
  "stale_run =
     (first_run spec_workbook ''Overview Dashboard'' NaN)
       \<lparr>ar_df := credit_table, executives := [Str ''All'', Str ''Ravi''],
        selected_exec := Str ''Ravi''\<rparr>"

section \<open>Properties of the aging calculations\<close>

lemma rows_set_column: "rows (set_column c f df) = map (\<lambda>r. r(c := f r)) (rows df)"
  by (simp add: set_column_def)

lemma columns_set_column:
  "columns (set_column c f df) = (if c \<in> set (columns df) then columns df else columns df @ [c])"
  by (simp add: set_column_def)

lemma rows_update_columns:
  "rows (update_columns cs g df) = map (\<lambda>r k. if k \<in> set cs then g (r k) else r k) (rows df)"
  by (simp add: update_columns_def)

lemma coerce_is_Num: "\<exists>x. coerce parse c = Num x"
  by (cases c) (auto simp: coerce_def split: option.splits)

lemma rows_coerce_columns:
  "rows (coerce_columns parse df) =
     map (\<lambda>r k. if k = ''Amount'' \<or> k \<in> set aging_cols then coerce parse (r k) else r k)
       (rows df)"
  by (auto simp: coerce_columns_def rows_update_columns aging_cols_def fun_eq_iff)

lemma rows_derive_columns:
  "rows (derive_columns df) =
     map (\<lambda>r. r(''Aging Sum'' := row_sum aging_cols r,
                ''Total Outstanding'' :=
                  (if gt_zero (r ''Amount'') then r ''Amount'' else row_sum aging_cols r),
                ''>90 Days'' := row_sum over_90_cols r)) (rows df)"
  by (simp add: derive_columns_def rows_set_column row_sum_def over_90_cols_def aging_cols_def
        o_def)

lemma coerce_columns_Num:
  assumes "r \<in> set (rows (coerce_columns parse df))"
    and "k = ''Amount'' \<or> k \<in> set aging_cols"
  shows "\<exists>x. r k = Num x"
proof -
  from assms(1) obtain r0 where
    "r = (\<lambda>k. if k = ''Amount'' \<or> k \<in> set aging_cols then coerce parse (r0 k) else r0 k)"
    by (auto simp: rows_coerce_columns)
  with assms(2) have "r k = coerce parse (r0 k)" by simp
  then show ?thesis using coerce_is_Num[of parse "r0 k"] by simp
qed

lemma first_missing_spec_table: "first_missing spec_table = None"
  by (simp add: first_missing_def spec_table_def required_ar_cols_def aging_cols_def)

lemma first_missing_credit_table: "first_missing credit_table = None"
  by (simp add: first_missing_def credit_table_def required_ar_cols_def aging_cols_def)

lemma rows_calc_spec_table:
  "rows (ar_calculations no_parse spec_table) = [(\<lambda>k. NaN)
     (''Customer Name'' := Str ''Acme'', ''Executive Name'' := Str ''Asha'',
      ''Amount'' := Num 0, ''0-30'' := Num 100, ''31-60'' := Num 0, ''61-90'' := Num 0,
      ''91-120'' := Num 200, ''121-150'' := Num 0, ''151-180'' := Num 0,
      ''181-365'' := Num 0, ''Above 365'' := Num 0, ''Aging Sum'' := Num 300,
      ''Total Outstanding'' := Num 300, ''>90 Days'' := Num 200)]"
  by (simp add: ar_calculations_def rows_derive_columns rows_coerce_columns spec_table_def
        spec_row_def row_sum_def aging_cols_def over_90_cols_def coerce_def fun_eq_iff)

text \<open>
  Claim C1. In every row of the aging table that has passed validation and gone through
  the calculations, the amount is a number, and the total outstanding is that amount when
  it is strictly positive and the sum of the eight bucket cells of the row otherwise.
\<close>

theorem total_outstanding_amount_or_buckets:
  assumes "first_missing df = None"
    and "r \<in> set (rows (ar_calculations parse df))"
  shows "\<exists>a. r ''Amount'' = Num a \<and>
             r ''Total Outstanding'' =
               (if 0 < a then Num a else Num (sum_list (map (\<lambda>c. num_of (r c)) aging_cols)))"
proof -
  from assms(2) obtain r0 where r0: "r0 \<in> set (rows (coerce_columns parse df))"
    and r: "r = r0(''Aging Sum'' := row_sum aging_cols r0,
                ''Total Outstanding'' :=
                  (if gt_zero (r0 ''Amount'') then r0 ''Amount'' else row_sum aging_cols r0),
                ''>90 Days'' := row_sum over_90_cols r0)"
    by (auto simp: ar_calculations_def rows_derive_columns)
  from coerce_columns_Num[OF r0, of "''Amount''"] obtain a where a: "r0 ''Amount'' = Num a"
    by auto
  show ?thesis using a by (simp add: r row_sum_def aging_cols_def)
qed

theorem total_outstanding_amount_or_buckets_witness:
  "first_missing spec_table = None \<and>
   hd (rows (ar_calculations no_parse spec_table)) ''Total Outstanding'' = Num 300"
proof -
  have h: "hd (rows (ar_calculations no_parse spec_table))
             \<in> set (rows (ar_calculations no_parse spec_table))"
    by (simp add: rows_calc_spec_table)
  show ?thesis
    using total_outstanding_amount_or_buckets[OF first_missing_spec_table h]
    by (simp add: first_missing_spec_table rows_calc_spec_table aging_cols_def)
qed

lemma calc_row:
  assumes "r \<in> set (rows (ar_calculations parse df))"
  obtains r0 where "r0 \<in> set (rows (coerce_columns parse df))"
    and "r = r0(''Aging Sum'' := row_sum aging_cols r0,
                ''Total Outstanding'' :=
                  (if gt_zero (r0 ''Amount'') then r0 ''Amount'' else row_sum aging_cols r0),
                ''>90 Days'' := row_sum over_90_cols r0)"
  using assms by (auto simp: ar_calculations_def rows_derive_columns)

lemma rows_calc_credit_table:
  "rows (ar_calculations no_parse credit_table) = [(\<lambda>k. NaN)
     (''Customer Name'' := Str ''Birch'', ''Executive Name'' := Str ''Ravi'',
      ''Amount'' := Num 0, ''0-30'' := Num (-100), ''31-60'' := Num 0, ''61-90'' := Num 0,
      ''91-120'' := Num 0, ''121-150'' := Num 0, ''151-180'' := Num 0,
      ''181-365'' := Num 0, ''Above 365'' := Num 0, ''Aging Sum'' := Num (-100),
      ''Total Outstanding'' := Num (-100), ''>90 Days'' := Num 0)]"
  by (simp add: ar_calculations_def rows_derive_columns rows_coerce_columns credit_table_def
        credit_row_def row_sum_def aging_cols_def over_90_cols_def coerce_def fun_eq_iff no_parse_def)

text \<open>
  Claim C2 fails as stated: the coercion keeps a negative number. On \<open>credit_table\<close> the
  first bucket stays at -100, the total outstanding is -100 and the amount over 90 days,
  0, exceeds the aging sum, -100.
\<close>

theorem negative_bucket_counterexample:
  "first_missing credit_table = None \<and>
   \<not> 0 \<le> num_of (hd (rows (coerce_columns no_parse credit_table)) ''0-30'') \<and>
   \<not> 0 \<le> num_of (hd (rows (ar_calculations no_parse credit_table)) ''Total Outstanding'') \<and>
   \<not> num_of (hd (rows (ar_calculations no_parse credit_table)) ''>90 Days'')
       \<le> num_of (hd (rows (ar_calculations no_parse credit_table)) ''Aging Sum'')"
  by (simp add: first_missing_credit_table rows_calc_credit_table)
     (simp add: rows_coerce_columns credit_table_def credit_row_def coerce_def aging_cols_def)

text \<open>
  Claim C2, amended. After the calculations every bucket cell of a row is a number (it may
  be negative), and in a row whose eight bucket cells are all non-negative the total
  outstanding is non-negative and the amount over 90 days is at most the aging sum.
\<close>

theorem derived_bounds_nonnegative_buckets:
  assumes "first_missing df = None"
    and "r \<in> set (rows (ar_calculations parse df))"
  shows "(\<forall>c \<in> set aging_cols. is_number (r c)) \<and>
         ((\<forall>c \<in> set aging_cols. 0 \<le> num_of (r c)) \<longrightarrow>
            0 \<le> num_of (r ''Total Outstanding'') \<and>
            num_of (r ''>90 Days'') \<le> num_of (r ''Aging Sum''))"
proof -
  from assms(2) obtain r0 where r0: "r0 \<in> set (rows (coerce_columns parse df))"
    and r: "r = r0(''Aging Sum'' := row_sum aging_cols r0,
                ''Total Outstanding'' :=
                  (if gt_zero (r0 ''Amount'') then r0 ''Amount'' else row_sum aging_cols r0),
                ''>90 Days'' := row_sum over_90_cols r0)"
    by (rule calc_row)
  have same: "r c = r0 c" if "c \<in> set aging_cols" for c
    using that by (auto simp: r aging_cols_def)
  have num: "is_number (r c)" if "c \<in> set aging_cols" for c
    using coerce_columns_Num[OF r0, of c] that same[OF that] by auto
  from coerce_columns_Num[OF r0, of "''Amount''"] obtain a where a: "r0 ''Amount'' = Num a"
    by auto
  have bounds: "0 \<le> num_of (r ''Total Outstanding'') \<and>
      num_of (r ''>90 Days'') \<le> num_of (r ''Aging Sum'')"
    if nn: "\<forall>c \<in> set aging_cols. 0 \<le> num_of (r c)"
  proof -
    from nn have "\<forall>c \<in> set aging_cols. 0 \<le> num_of (r0 c)" using same by simp
    then show ?thesis
      using a by (simp add: r row_sum_def aging_cols_def over_90_cols_def)
  qed
  show ?thesis using num bounds by blast
qed

theorem derived_bounds_nonnegative_buckets_witness:
  "first_missing spec_table = None \<and>
   0 \<le> num_of (hd (rows (ar_calculations no_parse spec_table)) ''Total Outstanding'') \<and>
   num_of (hd (rows (ar_calculations no_parse spec_table)) ''>90 Days'')
     \<le> num_of (hd (rows (ar_calculations no_parse spec_table)) ''Aging Sum'')"
proof -
  have h: "hd (rows (ar_calculations no_parse spec_table))
             \<in> set (rows (ar_calculations no_parse spec_table))"
    by (simp add: rows_calc_spec_table)
  have nn: "\<forall>c \<in> set aging_cols.
      0 \<le> num_of (hd (rows (ar_calculations no_parse spec_table)) c)"
    by (simp add: rows_calc_spec_table aging_cols_def)
  show ?thesis
    using derived_bounds_nonnegative_buckets[OF first_missing_spec_table h] nn
    by (simp add: first_missing_spec_table)
qed

text \<open>
  Claim C3. In every row the amount over 90 days is the sum of the five oldest buckets and
  the aging sum is the sum of all eight; the calculated row depends on its own source row
  only: equal source rows, in whatever tables and at whatever positions, give equal rows.
\<close>

theorem over_90_five_oldest_rowwise:
  assumes "first_missing df = None"
    and "i < length (rows df)"
  shows "(rows (ar_calculations parse df) ! i) ''>90 Days'' =
           Num (num_of ((rows (ar_calculations parse df) ! i) ''91-120'') +
                num_of ((rows (ar_calculations parse df) ! i) ''121-150'') +
                num_of ((rows (ar_calculations parse df) ! i) ''151-180'') +
                num_of ((rows (ar_calculations parse df) ! i) ''181-365'') +
                num_of ((rows (ar_calculations parse df) ! i) ''Above 365'')) \<and>
         (rows (ar_calculations parse df) ! i) ''Aging Sum'' =
           Num (sum_list (map (\<lambda>c. num_of ((rows (ar_calculations parse df) ! i) c)) aging_cols)) \<and>
         (\<forall>df' j. j < length (rows df') \<and> rows df' ! j = rows df ! i \<longrightarrow>
            rows (ar_calculations parse df') ! j = rows (ar_calculations parse df) ! i)"
  using assms(2)
  by (auto simp: ar_calculations_def rows_derive_columns rows_coerce_columns row_sum_def
        aging_cols_def over_90_cols_def)

theorem over_90_five_oldest_rowwise_witness:
  "first_missing spec_table = None \<and> 0 < length (rows spec_table) \<and>
   (rows (ar_calculations no_parse spec_table) ! 0) ''>90 Days'' = Num 200"
proof -
  have h: "0 < length (rows spec_table)" by (simp add: spec_table_def)
  show ?thesis
    using over_90_five_oldest_rowwise[OF first_missing_spec_table h, of no_parse] h
    by (simp add: first_missing_spec_table rows_calc_spec_table)
qed

section \<open>The steps of the script up to the validation\<close>

lemma and_then_Inr: "and_then (Inr x) f = f x"
  by (simp add: and_then_def)

lemma and_then_Inl: "and_then (Inl h) f = Inl h"
  by (simp add: and_then_def)

lemma pipeline_loaded:
  assumes "uploaded_file e = Some wb"
    and "wb ''AR_Aging'' = Some a"
    and "wb ''Executive_Targets'' = Some x"
    and "wb ''Invoice_Details'' = Some i"
    and "month_input e \<noteq> []"
  shows "pipeline parse e =
           and_then (validate (loaded e a x i)) (\<lambda>e3.
           and_then (calculations parse e3) (\<lambda>e4.
           and_then (check_empty e4) (\<lambda>e5.
           and_then (select_executive e5) apply_filter)))"
proof -
  have 1: "load_data wb e = Inr (e\<lparr>ar_df := a, exec_df := x, inv_df := i\<rparr>)"
    using assms(2-4) by (simp add: load_data_def)
  have 2: "check_month (clean_column_names (e\<lparr>ar_df := a, exec_df := x, inv_df := i\<rparr>))
             = Inr (clean_column_names (e\<lparr>ar_df := a, exec_df := x, inv_df := i\<rparr>))"
    using assms(5) by (simp add: check_month_def clean_column_names_def)
  show ?thesis
    unfolding pipeline_def loaded_def using assms(1) by (simp add: 1 2 and_then_Inr)
qed

lemma pipeline_first_run:
  "pipeline parse (first_run (workbook_of a x i) pg ch) =
     and_then (validate (loaded (first_run (workbook_of a x i) pg ch) a x i)) (\<lambda>e3.
     and_then (calculations parse e3) (\<lambda>e4.
     and_then (check_empty e4) (\<lambda>e5.
     and_then (select_executive e5) apply_filter)))"
  by (rule pipeline_loaded[where wb = "workbook_of a x i"])
     (simp_all add: first_run_def workbook_of_def)

lemma ar_df_loaded:
  "ar_df (loaded e a x i) = set_column ''Month'' (\<lambda>r. Str (month_input e)) (strip_columns a)"
  by (simp add: loaded_def attach_month_def clean_column_names_def)

lemma exec_df_loaded:
  "exec_df (loaded e a x i) = set_column ''Month'' (\<lambda>r. Str (month_input e)) (strip_columns x)"
  by (simp add: loaded_def attach_month_def clean_column_names_def)

lemma inv_df_loaded:
  "inv_df (loaded e a x i) = set_column ''Month'' (\<lambda>r. Str (month_input e)) (strip_columns i)"
  by (simp add: loaded_def attach_month_def clean_column_names_def)

lemma first_missing_set_column_Month:
  "first_missing (set_column ''Month'' f df) = first_missing df"
  unfolding first_missing_def
proof (rule find_cong[OF refl])
  fix col assume "col \<in> set required_ar_cols"
  then have "col \<noteq> ''Month''"
    by (auto simp: required_ar_cols_def aging_cols_def)
  then show "(col \<notin> set (columns (set_column ''Month'' f df))) = (col \<notin> set (columns df))"
    by (simp add: columns_set_column)
qed


lemma first_missing_None:
  "first_missing df = None \<Longrightarrow> c \<in> set required_ar_cols \<Longrightarrow> c \<in> set (columns df)"
  by (auto simp: first_missing_def find_None_iff)

section \<open>Properties of the coercion\<close>

lemma columns_coerce_columns: "columns (coerce_columns parse df) = columns df"
  by (simp add: coerce_columns_def update_columns_def)

lemma coerce_cases:
  "coerce parse v =
     (case v of
        Num x \<Rightarrow> Num x
      | Str s \<Rightarrow> (case parse s of Some x \<Rightarrow> Num x | None \<Rightarrow> Num 0)
      | NaN \<Rightarrow> Num 0)"
  by (cases v) (auto simp: coerce_def split: option.splits)

lemma count_list_distinct: "distinct xs \<Longrightarrow> count_list xs x \<le> 1"
  by (induction xs) (auto simp: count_list_0_iff)

lemma numeric_coercion_distinct:
  "distinct (columns df) \<Longrightarrow> numeric_coercion parse df = Inr (coerce_columns parse df)"
  using count_list_distinct[of "columns df" "''Amount''"] by (simp add: numeric_coercion_def)

lemma strip_required: "map strip required_ar_cols = required_ar_cols"
  by (simp add: required_ar_cols_def aging_cols_def strip_def is_space_def)

lemma columns_strip_columns: "columns (strip_columns df) = map strip (columns df)"
  by (simp add: strip_columns_def)

lemma columns_strip_two_amounts:
  "columns (strip_columns two_amounts_table) =
     [''Customer Name'', ''Executive Name'', ''Amount'', ''Amount''] @ aging_cols"
  by (simp add: columns_strip_columns two_amounts_table_def aging_cols_def strip_def is_space_def)

lemma first_missing_two_amounts: "first_missing (strip_columns two_amounts_table) = None"
  by (simp add: first_missing_def columns_strip_two_amounts required_ar_cols_def aging_cols_def)

lemma numeric_coercion_two_amounts:
  "numeric_coercion parse (set_column ''Month'' f (strip_columns two_amounts_table)) = Inl TypeError"
  by (simp add: numeric_coercion_def columns_set_column columns_strip_two_amounts aging_cols_def)

text \<open>
  Claim C4 fails as stated: the step raises on some tables. A sheet with the headers
  "Amount" and "Amount " has two columns labelled Amount once line 49 has stripped them; it
  passes the validation, and line 78 raises \<^verbatim>\<open>TypeError\<close>, which nothing catches.
\<close>

theorem repeated_amount_label_counterexample:
  "first_missing (strip_columns two_amounts_table) = None \<and>
   numeric_coercion no_parse (strip_columns two_amounts_table) = Inl TypeError \<and>
   pipeline no_parse
     (first_run (workbook_of two_amounts_table targets_table invoices_table)
        ''Overview Dashboard'' NaN) = Inl (Uncaught TypeError)"
proof -
  let ?e = "first_run (workbook_of two_amounts_table targets_table invoices_table)
        ''Overview Dashboard'' NaN"
  have 1: "numeric_coercion no_parse (strip_columns two_amounts_table) = Inl TypeError"
    by (simp add: numeric_coercion_def columns_strip_two_amounts aging_cols_def)
  have 2: "validate (loaded ?e two_amounts_table targets_table invoices_table)
             = Inr (loaded ?e two_amounts_table targets_table invoices_table)"
    by (simp add: validate_def ar_df_loaded first_missing_set_column_Month
          first_missing_two_amounts)
  have 3: "calculations no_parse (loaded ?e two_amounts_table targets_table invoices_table)
             = Inl (Uncaught TypeError)"
    by (simp add: calculations_def ar_df_loaded numeric_coercion_two_amounts)
  have "pipeline no_parse ?e = Inl (Uncaught TypeError)"
    by (simp add: pipeline_first_run 2 3 and_then_Inr and_then_Inl)
  with 1 first_missing_two_amounts show ?thesis by simp
qed

text \<open>
  Claim C4, amended. On a table that has passed the validation and whose labels are
  distinct (its cells being numbers, texts or missing, as all cells are here), the step
  raises nothing and keeps the columns and the number of rows. In the amount column and in
  the eight bucket columns it keeps a number, replaces a text by the number pandas reads it
  as, or by 0 when pandas reads none, and replaces a missing cell by 0; it leaves the cells
  of the other columns as they are.
\<close>

theorem coercion_cellwise:
  assumes "first_missing df = None"
    and "distinct (columns df)"
    and "i < length (rows df)"
  shows "\<exists>out. numeric_coercion parse df = Inr out \<and>
           columns out = columns df \<and> length (rows out) = length (rows df) \<and>
           (\<forall>c. c \<in> set [''Amount'', ''0-30'', ''31-60'', ''61-90'', ''91-120'',
                         ''121-150'', ''151-180'', ''181-365'', ''Above 365''] \<longrightarrow>
              (\<forall>x. (rows df ! i) c = Num x \<longrightarrow> (rows out ! i) c = Num x) \<and>
              (\<forall>s x. (rows df ! i) c = Str s \<and> parse s = Some x \<longrightarrow> (rows out ! i) c = Num x) \<and>
              (\<forall>s. (rows df ! i) c = Str s \<and> parse s = None \<longrightarrow> (rows out ! i) c = Num 0) \<and>
              ((rows df ! i) c = NaN \<longrightarrow> (rows out ! i) c = Num 0)) \<and>
           (\<forall>c. c \<notin> set [''Amount'', ''0-30'', ''31-60'', ''61-90'', ''91-120'',
                         ''121-150'', ''151-180'', ''181-365'', ''Above 365''] \<longrightarrow>
              (rows out ! i) c = (rows df ! i) c)"
proof -
  define S where "S = set [''Amount'', ''0-30'', ''31-60'', ''61-90'', ''91-120'',
                         ''121-150'', ''151-180'', ''181-365'', ''Above 365'']"
  have S: "(c = ''Amount'' \<or> c \<in> set aging_cols) = (c \<in> S)" for c
    by (auto simp: S_def aging_cols_def)
  have out: "numeric_coercion parse df = Inr (coerce_columns parse df)"
    using assms(2) by (rule numeric_coercion_distinct)
  have cell: "(rows (coerce_columns parse df) ! i) c =
      (if c \<in> S then coerce parse ((rows df ! i) c) else (rows df ! i) c)" for c
    using assms(3) by (simp add: rows_coerce_columns S)
  have len: "length (rows (coerce_columns parse df)) = length (rows df)"
    by (simp add: rows_coerce_columns)
  have "\<exists>out. numeric_coercion parse df = Inr out \<and>
           columns out = columns df \<and> length (rows out) = length (rows df) \<and>
           (\<forall>c. c \<in> S \<longrightarrow>
              (\<forall>x. (rows df ! i) c = Num x \<longrightarrow> (rows out ! i) c = Num x) \<and>
              (\<forall>s x. (rows df ! i) c = Str s \<and> parse s = Some x \<longrightarrow> (rows out ! i) c = Num x) \<and>
              (\<forall>s. (rows df ! i) c = Str s \<and> parse s = None \<longrightarrow> (rows out ! i) c = Num 0) \<and>
              ((rows df ! i) c = NaN \<longrightarrow> (rows out ! i) c = Num 0)) \<and>
           (\<forall>c. c \<notin> S \<longrightarrow> (rows out ! i) c = (rows df ! i) c)"
    unfolding out
    by (intro exI[of _ "coerce_columns parse df"] conjI refl columns_coerce_columns len)
       (auto simp: cell coerce_cases)
  then show ?thesis unfolding S_def .
qed

theorem coercion_cellwise_witness:
  "first_missing credit_table = None \<and> distinct (columns credit_table) \<and>
   0 < length (rows credit_table) \<and>
   (\<exists>out. numeric_coercion no_parse credit_table = Inr out \<and>
      (rows out ! 0) ''Amount'' = Num 0 \<and>
      (rows out ! 0) ''Above 365'' = Num 0 \<and>
      (rows out ! 0) ''0-30'' = Num (-100) \<and>
      (rows out ! 0) ''Customer Name'' = Str ''Birch'')"
proof -
  have d: "distinct (columns credit_table)"
    by (simp add: credit_table_def required_ar_cols_def aging_cols_def)
  have h: "0 < length (rows credit_table)" by (simp add: credit_table_def)
  have r: "rows credit_table ! 0 = credit_row" by (simp add: credit_table_def)
  from coercion_cellwise[OF first_missing_credit_table d h, of no_parse]
  obtain out where out: "numeric_coercion no_parse credit_table = Inr out"
    and b: "\<forall>c. c \<in> set [''Amount'', ''0-30'', ''31-60'', ''61-90'', ''91-120'',
                         ''121-150'', ''151-180'', ''181-365'', ''Above 365''] \<longrightarrow>
              (\<forall>x. (rows credit_table ! 0) c = Num x \<longrightarrow> (rows out ! 0) c = Num x) \<and>
              (\<forall>s x. (rows credit_table ! 0) c = Str s \<and> no_parse s = Some x \<longrightarrow>
                 (rows out ! 0) c = Num x) \<and>
              (\<forall>s. (rows credit_table ! 0) c = Str s \<and> no_parse s = None \<longrightarrow>
                 (rows out ! 0) c = Num 0) \<and>
              ((rows credit_table ! 0) c = NaN \<longrightarrow> (rows out ! 0) c = Num 0)"
    and o: "\<forall>c. c \<notin> set [''Amount'', ''0-30'', ''31-60'', ''61-90'', ''91-120'',
                         ''121-150'', ''151-180'', ''181-365'', ''Above 365''] \<longrightarrow>
              (rows out ! 0) c = (rows credit_table ! 0) c"
    by (elim exE conjE) (rule that, assumption+)
  have c: "credit_row ''Amount'' = Str ''n/a''" "credit_row ''Above 365'' = NaN"
    "credit_row ''0-30'' = Num (-100)" "credit_row ''Customer Name'' = Str ''Birch''"
    by (simp_all add: credit_row_def)
  have v1: "(rows out ! 0) ''Amount'' = Num 0"
    using b[rule_format, of "''Amount''"] by (simp add: r c no_parse_def)
  have v2: "(rows out ! 0) ''Above 365'' = Num 0"
    using b[rule_format, of "''Above 365''"] by (simp add: r c)
  have v3: "(rows out ! 0) ''0-30'' = Num (-100)"
    using b[rule_format, of "''0-30''"] by (simp add: r c)
  have v4: "(rows out ! 0) ''Customer Name'' = Str ''Birch''"
    using o[rule_format, of "''Customer Name''"] by (simp add: r c)
  show ?thesis using first_missing_credit_table d h out v1 v2 v3 v4 by simp
qed

section \<open>Properties of the executive performance view\<close>

lemma try_map_Inr:
  "(\<And>x. x \<in> set xs \<Longrightarrow> f x = Inr (g x)) \<Longrightarrow> try_map f xs = Inr (map g xs)"
  by (induction xs) auto

lemma try_set_column_Inr:
  assumes "\<And>r. r \<in> set (rows df) \<Longrightarrow> f r = Inr (g r)"
  shows "try_set_column c f df = Inr (set_column c g df)"
proof -
  have "try_map (\<lambda>r. case f r of Inl e \<Rightarrow> Inl e | Inr v \<Rightarrow> Inr (r(c := v))) (rows df)
          = Inr (map (\<lambda>r. r(c := g r)) (rows df))"
    by (rule try_map_Inr) (simp add: assms)
  then show ?thesis by (simp add: try_set_column_def set_column_def)
qed

lemma arith_Inr:
  "\<not> (is_text a \<and> b \<noteq> NaN) \<Longrightarrow> \<not> (is_text b \<and> a \<noteq> NaN) \<Longrightarrow>
   arith f a b = Inr (case a of Num x \<Rightarrow> (case b of Num y \<Rightarrow> Num (f x y) | _ \<Rightarrow> NaN) | _ \<Rightarrow> NaN)"
  by (cases a; cases b) auto

lemma pending_Inr: "\<not> text_meets_value r \<Longrightarrow> pending r = Inr (pending_value r)"
  by (cases "r ''Target Amount''"; cases "r ''Actual Collected''")
     (auto simp: pending_def pending_value_def text_meets_value_def)

lemma achievement_Inr: "\<not> text_meets_value r \<Longrightarrow> achievement r = Inr (achievement_value r)"
  by (cases "r ''Target Amount''"; cases "r ''Actual Collected''")
     (auto simp: achievement_def achievement_value_def replace_zero_def text_meets_value_def)

lemma text_meets_value_Pending: "text_meets_value (r(''Pending'' := v)) = text_meets_value r"
  by (simp add: text_meets_value_def)

lemma executive_performance_Inr:
  assumes "''Target Amount'' \<in> set (columns df)"
    and "''Actual Collected'' \<in> set (columns df)"
    and "\<And>r. r \<in> set (rows df) \<Longrightarrow> \<not> text_meets_value r"
  shows "executive_performance df =
           Inr (set_column ''Achievement %'' achievement_value
                  (set_column ''Pending'' pending_value df))"
proof -
  have 1: "try_set_column ''Pending'' pending df = Inr (set_column ''Pending'' pending_value df)"
    by (rule try_set_column_Inr) (simp add: assms(3) pending_Inr)
  have 2: "try_set_column ''Achievement %'' achievement (set_column ''Pending'' pending_value df)
      = Inr (set_column ''Achievement %'' achievement_value (set_column ''Pending'' pending_value df))"
    by (rule try_set_column_Inr)
       (auto simp: rows_set_column assms(3) text_meets_value_Pending intro!: achievement_Inr)
  show ?thesis by (simp add: executive_performance_def assms(1,2) 1 2)
qed

text \<open>
  Claim C6 fails as stated: the targets table is not coerced, and a text in an amount
  column that meets a number raises \<^verbatim>\<open>TypeError\<close> at line 158, so that no row gets a
  pending amount or an achievement.
\<close>

theorem text_target_counterexample:
  "''Target Amount'' \<in> set (columns text_target_table) \<and>
   ''Actual Collected'' \<in> set (columns text_target_table) \<and>
   executive_performance text_target_table = Inl TypeError"
  by (simp add: text_target_table_def executive_performance_def try_set_column_def pending_def)

text \<open>
  Claim C6, amended. On a targets table that has the two amount columns and in which no
  text of these columns meets a cell that is not missing, the view raises nothing and, for
  every row: pending = target - actual when both are numbers, and pending is missing when
  one of them is; achievement = actual / target * 100 when both are numbers and the target
  is not zero; achievement = 0 when the target is zero or missing, whatever the actual
  amount is.
\<close>

theorem pending_and_achievement:
  assumes "''Target Amount'' \<in> set (columns df)"
    and "''Actual Collected'' \<in> set (columns df)"
    and "\<forall>r \<in> set (rows df). \<not> text_meets_value r"
  shows "\<exists>out. executive_performance df = Inr out \<and>
           length (rows out) = length (rows df) \<and>
           (\<forall>i < length (rows df).
              (\<forall>t a. (rows df ! i) ''Target Amount'' = Num t \<and>
                     (rows df ! i) ''Actual Collected'' = Num a \<longrightarrow>
                 (rows out ! i) ''Pending'' = Num (t - a) \<and>
                 (t \<noteq> 0 \<longrightarrow> (rows out ! i) ''Achievement %'' = Num (a / t * 100))) \<and>
              ((rows df ! i) ''Target Amount'' = NaN \<or> (rows df ! i) ''Actual Collected'' = NaN \<longrightarrow>
                 (rows out ! i) ''Pending'' = NaN) \<and>
              ((rows df ! i) ''Target Amount'' = Num 0 \<or> (rows df ! i) ''Target Amount'' = NaN \<longrightarrow>
                 (rows out ! i) ''Achievement %'' = Num 0))"
proof -
  have "executive_performance df =
           Inr (set_column ''Achievement %'' achievement_value
                  (set_column ''Pending'' pending_value df))"
    using assms by (intro executive_performance_Inr) auto
  then show ?thesis
    by (auto simp: rows_set_column pending_value_def achievement_value_def split: cell.splits)
qed

theorem pending_and_achievement_witness:
  "''Target Amount'' \<in> set (columns open_targets_table) \<and>
   ''Actual Collected'' \<in> set (columns open_targets_table) \<and>
   (\<exists>out. executive_performance open_targets_table = Inr out \<and>
      (rows out ! 0) ''Pending'' = Num 120 \<and> (rows out ! 0) ''Achievement %'' = Num 40 \<and>
      (rows out ! 1) ''Achievement %'' = Num 0 \<and> (rows out ! 2) ''Achievement %'' = Num 0 \<and>
      (rows out ! 3) ''Pending'' = NaN \<and> (rows out ! 3) ''Achievement %'' = Num 0)"
proof -
  have c1: "''Target Amount'' \<in> set (columns open_targets_table)"
    and c2: "''Actual Collected'' \<in> set (columns open_targets_table)"
    by (simp_all add: open_targets_table_def targets_table_def)
  have nt: "\<forall>r \<in> set (rows open_targets_table). \<not> text_meets_value r"
    by (simp add: open_targets_table_def targets_table_def text_meets_value_def)
  have l: "length (rows open_targets_table) = 4"
    by (simp add: open_targets_table_def targets_table_def)
  have r0: "(rows open_targets_table ! 0) ''Target Amount'' = Num 200 \<and>
            (rows open_targets_table ! 0) ''Actual Collected'' = Num 80"
    and r1: "(rows open_targets_table ! 1) ''Target Amount'' = Num 0"
    and r2: "(rows open_targets_table ! 2) ''Target Amount'' = NaN"
    and r3: "(rows open_targets_table ! 3) ''Target Amount'' = NaN"
    by (simp_all add: open_targets_table_def targets_table_def)
  from pending_and_achievement[OF c1 c2 nt] obtain out
    where out: "executive_performance open_targets_table = Inr out"
    and p: "\<forall>i < 4.
              (\<forall>t a. (rows open_targets_table ! i) ''Target Amount'' = Num t \<and>
                     (rows open_targets_table ! i) ''Actual Collected'' = Num a \<longrightarrow>
                 (rows out ! i) ''Pending'' = Num (t - a) \<and>
                 (t \<noteq> 0 \<longrightarrow> (rows out ! i) ''Achievement %'' = Num (a / t * 100))) \<and>
              ((rows open_targets_table ! i) ''Target Amount'' = NaN \<or>
               (rows open_targets_table ! i) ''Actual Collected'' = NaN \<longrightarrow>
                 (rows out ! i) ''Pending'' = NaN) \<and>
              ((rows open_targets_table ! i) ''Target Amount'' = Num 0 \<or>
               (rows open_targets_table ! i) ''Target Amount'' = NaN \<longrightarrow>
                 (rows out ! i) ''Achievement %'' = Num 0)"
    unfolding l by blast
  from p[rule_format, of 0] r0
  have "(rows out ! 0) ''Pending'' = Num (200 - 80) \<and>
        (rows out ! 0) ''Achievement %'' = Num (80 / 200 * 100)"
    by simp
  moreover from p[rule_format, of 1] r1 have "(rows out ! 1) ''Achievement %'' = Num 0" by simp
  moreover from p[rule_format, of 2] r2 have "(rows out ! 2) ''Achievement %'' = Num 0" by simp
  moreover from p[rule_format, of 3] r3
  have "(rows out ! 3) ''Pending'' = NaN \<and> (rows out ! 3) ''Achievement %'' = Num 0" by simp
  ultimately show ?thesis using c1 c2 out by simp
qed

section \<open>Properties of the executive filter\<close>

lemma filter_exec_filtered_by:
  assumes "''Executive Name'' \<in> set (columns df)" and "sel \<noteq> NaN"
  shows "\<exists>df'. filter_exec sel df = Inr df' \<and> filtered_by sel df df'"
proof -
  have "cell_eq (r ''Executive Name'') sel = (r ''Executive Name'' = sel)" for r :: row
    using assms(2) by (auto simp: cell_eq_def)
  then show ?thesis
    using assms(1) by (simp add: filter_exec_def filtered_by_def)
qed

text \<open>
  Claim C7. When the three tables have the executive-name column: selecting "All" leaves
  the state of the run as it is; selecting any other executive keeps, in each of the three
  tables, exactly the rows of that executive, and the rows kept and the rows dropped
  partition the table.
\<close>

theorem executive_filter_partition:
  assumes "''Executive Name'' \<in> set (columns (ar_df e))"
    and "''Executive Name'' \<in> set (columns (exec_df e))"
    and "''Executive Name'' \<in> set (columns (inv_df e))"
  shows "(selected_exec e = Str ''All'' \<longrightarrow> apply_filter e = Inr e) \<and>
         (selected_exec e \<noteq> Str ''All'' \<and> selected_exec e \<noteq> NaN \<longrightarrow>
            (\<exists>e'. apply_filter e = Inr e' \<and>
               filtered_by (selected_exec e) (ar_df e) (ar_df e') \<and>
               filtered_by (selected_exec e) (exec_df e) (exec_df e') \<and>
               filtered_by (selected_exec e) (inv_df e) (inv_df e')))"
proof (intro conjI impI)
  assume "selected_exec e = Str ''All''"
  then show "apply_filter e = Inr e" by (simp add: apply_filter_def)
next
  assume sel: "selected_exec e \<noteq> Str ''All'' \<and> selected_exec e \<noteq> NaN"
  from filter_exec_filtered_by[OF assms(1), of "selected_exec e"] sel
  obtain a where a: "filter_exec (selected_exec e) (ar_df e) = Inr a"
    "filtered_by (selected_exec e) (ar_df e) a" by blast
  from filter_exec_filtered_by[OF assms(2), of "selected_exec e"] sel
  obtain x where x: "filter_exec (selected_exec e) (exec_df e) = Inr x"
    "filtered_by (selected_exec e) (exec_df e) x" by blast
  from filter_exec_filtered_by[OF assms(3), of "selected_exec e"] sel
  obtain i where i: "filter_exec (selected_exec e) (inv_df e) = Inr i"
    "filtered_by (selected_exec e) (inv_df e) i" by blast
  have "apply_filter e = Inr (e\<lparr>ar_df := a, exec_df := x, inv_df := i\<rparr>)"
    using sel a(1) x(1) i(1) by (simp add: apply_filter_def and_then_def uncaught_def)
  then show "\<exists>e'. apply_filter e = Inr e' \<and>
               filtered_by (selected_exec e) (ar_df e) (ar_df e') \<and>
               filtered_by (selected_exec e) (exec_df e) (exec_df e') \<and>
               filtered_by (selected_exec e) (inv_df e) (inv_df e')"
    using a(2) x(2) i(2) by simp
qed

theorem executive_filter_partition_witness:
  "''Executive Name'' \<in> set (columns (ar_df filter_env)) \<and>
   ''Executive Name'' \<in> set (columns (exec_df filter_env)) \<and>
   ''Executive Name'' \<in> set (columns (inv_df filter_env)) \<and>
   selected_exec filter_env \<noteq> Str ''All'' \<and> selected_exec filter_env \<noteq> NaN \<and>
   (\<exists>e'. apply_filter filter_env = Inr e' \<and> rows (ar_df e') = [spec_row] \<and>
        length (rows (exec_df e')) = 1 \<and> length (rows (inv_df e')) = 1) \<and>
   apply_filter (filter_env\<lparr>selected_exec := Str ''All''\<rparr>) = Inr (filter_env\<lparr>selected_exec := Str ''All''\<rparr>)"
proof -
  have c: "''Executive Name'' \<in> set (columns (ar_df filter_env))"
    "''Executive Name'' \<in> set (columns (exec_df filter_env))"
    "''Executive Name'' \<in> set (columns (inv_df filter_env))"
    by (simp_all add: filter_env_def two_rows_table_def required_ar_cols_def targets_table_def
          invoices_table_def)
  have s: "selected_exec filter_env \<noteq> Str ''All'' \<and> selected_exec filter_env \<noteq> NaN"
    by (simp add: filter_env_def)
  from executive_filter_partition[OF c] s obtain e' where e': "apply_filter filter_env = Inr e'"
    and f: "filtered_by (selected_exec filter_env) (ar_df filter_env) (ar_df e')"
      "filtered_by (selected_exec filter_env) (exec_df filter_env) (exec_df e')"
      "filtered_by (selected_exec filter_env) (inv_df filter_env) (inv_df e')"
    by blast
  have 1: "rows (ar_df e') = [spec_row]"
    using f(1) by (simp add: filtered_by_def filter_env_def two_rows_table_def spec_row_def credit_row_def)
  have 2: "length (rows (exec_df e')) = 1"
    using f(2) by (simp add: filtered_by_def filter_env_def targets_table_def)
  have 3: "length (rows (inv_df e')) = 1"
    using f(3) by (simp add: filtered_by_def filter_env_def invoices_table_def)
  have c': "''Executive Name'' \<in> set (columns (ar_df (filter_env\<lparr>selected_exec := Str ''All''\<rparr>)))"
    "''Executive Name'' \<in> set (columns (exec_df (filter_env\<lparr>selected_exec := Str ''All''\<rparr>)))"
    "''Executive Name'' \<in> set (columns (inv_df (filter_env\<lparr>selected_exec := Str ''All''\<rparr>)))"
    using c by simp_all
  have 4: "apply_filter (filter_env\<lparr>selected_exec := Str ''All''\<rparr>) = Inr (filter_env\<lparr>selected_exec := Str ''All''\<rparr>)"
    using executive_filter_partition[OF c'] by simp
  show ?thesis using c s e' 1 2 3 4 by blast
qed

lemma set_unique: "set (unique cs) = set cs"
  by (simp add: unique_def)

lemma distinct_unique: "distinct (unique cs)"
  by (simp add: unique_def)

lemma set_dropna: "set (dropna cs) = {c \<in> set cs. c \<noteq> NaN}"
  by (auto simp: dropna_def)

lemma text_cell: "is_text c \<Longrightarrow> Str (case c of Str s \<Rightarrow> s | _ \<Rightarrow> []) = c"
  by (cases c) auto

lemma number_cell: "is_number c \<Longrightarrow> Num (num_of c) = c"
  by (cases c) auto

lemma sorted_cells_Inr:
  assumes "sorted_cells cs = Inr ys"
  shows "set ys = set cs \<and> (distinct cs \<longrightarrow> distinct ys)"
proof (cases "list_all is_text cs")
  case True
  then have t: "\<And>c. c \<in> set cs \<Longrightarrow> is_text c" by (simp add: list_all_iff)
  from True assms have ys: "ys = map Str (sort (map (\<lambda>c. case c of Str s \<Rightarrow> s | _ \<Rightarrow> []) cs))"
    by (simp add: sorted_cells_def)
  have "set ys = (\<lambda>c. Str (case c of Str s \<Rightarrow> s | _ \<Rightarrow> [])) ` set cs"
    by (simp add: ys image_image)
  also have "\<dots> = set cs" using t by (simp add: text_cell)
  finally have 1: "set ys = set cs" .
  have "inj_on (\<lambda>c. case c of Str s \<Rightarrow> s | _ \<Rightarrow> []) (set cs)"
    by (rule inj_onI) (metis t text_cell)
  then have "distinct cs \<Longrightarrow> distinct ys"
    by (simp add: ys distinct_map inj_on_def)
  with 1 show ?thesis by blast
next
  case False
  with assms have n: "list_all is_number cs"
    by (auto simp: sorted_cells_def split: if_splits)
  then have t: "\<And>c. c \<in> set cs \<Longrightarrow> is_number c" by (simp add: list_all_iff)
  from False n assms have ys: "ys = map Num (sort (map num_of cs))"
    by (simp add: sorted_cells_def)
  have "set ys = (\<lambda>c. Num (num_of c)) ` set cs"
    by (simp add: ys image_image)
  also have "\<dots> = set cs" using t by (simp add: number_cell)
  finally have 1: "set ys = set cs" .
  have "inj_on num_of (set cs)"
    by (rule inj_onI) (metis t number_cell)
  then have "distinct cs \<Longrightarrow> distinct ys"
    by (simp add: ys distinct_map inj_on_def)
  with 1 show ?thesis by blast
qed

section \<open>The steps of the script after the validation\<close>

lemma and_then_Inr_iff: "and_then m f = Inr y \<longleftrightarrow> (\<exists>x. m = Inr x \<and> f x = Inr y)"
  by (cases m) (simp_all add: and_then_def)

lemma loaded_inputs:
  "uploaded_file (loaded e a x i) = uploaded_file e"
  "month_input (loaded e a x i) = month_input e"
  "page (loaded e a x i) = page e"
  "exec_choice (loaded e a x i) = exec_choice e"
  by (simp_all add: loaded_def attach_month_def clean_column_names_def)

lemma distinct_columns_set_column:
  "distinct (columns df) \<Longrightarrow> distinct (columns (set_column c f df))"
  by (simp add: columns_set_column)

lemma mem_columns_set_column:
  "k \<in> set (columns df) \<Longrightarrow> k \<in> set (columns (set_column c f df))"
  by (simp add: columns_set_column)

lemma distinct_columns_ar_calculations:
  "distinct (columns df) \<Longrightarrow> distinct (columns (ar_calculations parse df))"
  by (simp add: ar_calculations_def derive_columns_def distinct_columns_set_column
        columns_coerce_columns)

lemma mem_columns_ar_calculations:
  "k \<in> set (columns df) \<Longrightarrow> k \<in> set (columns (ar_calculations parse df))"
  by (simp add: ar_calculations_def derive_columns_def mem_columns_set_column
        columns_coerce_columns)

lemma length_rows_ar_calculations:
  "length (rows (ar_calculations parse df)) = length (rows df)"
  by (simp add: ar_calculations_def rows_derive_columns rows_coerce_columns)

lemma length_rows_ar_df_loaded: "length (rows (ar_df (loaded e a x i))) = length (rows a)"
  by (simp add: ar_df_loaded rows_set_column strip_columns_def)

lemma names_ar_calculations:
  "map (\<lambda>r. r ''Executive Name'') (rows (ar_calculations parse df)) =
   map (\<lambda>r. r ''Executive Name'') (rows df)"
  by (simp add: ar_calculations_def rows_derive_columns rows_coerce_columns aging_cols_def o_def)

lemma names_set_column_Month:
  "map (\<lambda>r. r ''Executive Name'') (rows (set_column ''Month'' f df)) =
   map (\<lambda>r. r ''Executive Name'') (rows df)"
  by (simp add: rows_set_column o_def)

lemma calculations_distinct:
  "distinct (columns (ar_df e)) \<Longrightarrow>
   calculations parse e = Inr (e\<lparr>ar_df := ar_calculations parse (ar_df e)\<rparr>)"
  by (simp add: calculations_def numeric_coercion_distinct ar_calculations_def)

lemma pipeline_options:
  assumes "uploaded_file e = Some wb"
    and "wb ''AR_Aging'' = Some a"
    and "wb ''Executive_Targets'' = Some x"
    and "wb ''Invoice_Details'' = Some i"
    and "month_input e \<noteq> []"
    and "first_missing (strip_columns a) = None"
    and "distinct (map strip (columns a))"
    and "rows a \<noteq> []"
    and "executive_options (ar_calculations parse (ar_df (loaded e a x i))) = Inr opts"
  shows "pipeline parse e =
           apply_filter ((loaded e a x i)
             \<lparr>ar_df := ar_calculations parse (ar_df (loaded e a x i)),
              executives := opts, selected_exec := selectbox opts (exec_choice e)\<rparr>)"
proof -
  define L where "L = loaded e a x i"
  define C where "C = L\<lparr>ar_df := ar_calculations parse (ar_df L)\<rparr>"
  have v: "validate L = Inr L"
    by (simp add: L_def validate_def ar_df_loaded first_missing_set_column_Month assms(6))
  have "distinct (columns (ar_df L))"
    by (simp add: L_def ar_df_loaded distinct_columns_set_column columns_strip_columns assms(7))
  then have c: "calculations parse L = Inr C"
    unfolding C_def by (rule calculations_distinct)
  have "length (rows (ar_df C)) = length (rows a)"
    by (simp add: C_def L_def length_rows_ar_calculations length_rows_ar_df_loaded)
  with assms(8) have "rows (ar_df C) \<noteq> []" by auto
  then have n: "check_empty C = Inr C" by (simp add: check_empty_def)
  have s: "select_executive C =
      Inr (C\<lparr>executives := opts, selected_exec := selectbox opts (exec_choice e)\<rparr>)"
    using assms(9) by (simp add: select_executive_def C_def L_def loaded_inputs)
  have "pipeline parse e =
      apply_filter (C\<lparr>executives := opts, selected_exec := selectbox opts (exec_choice e)\<rparr>)"
    unfolding pipeline_loaded[OF assms(1-5)] L_def[symmetric]
    by (simp add: v c n s and_then_Inr)
  then show ?thesis by (simp add: C_def L_def)
qed

lemma columns_strip_spec_table: "columns (strip_columns spec_table) = required_ar_cols"
  by (simp add: columns_strip_columns spec_table_def strip_required)

lemma first_missing_strip_spec_table: "first_missing (strip_columns spec_table) = None"
  by (simp add: first_missing_def columns_strip_spec_table find_None_iff)

lemma distinct_required: "distinct required_ar_cols"
  by (simp add: required_ar_cols_def aging_cols_def)

lemma names_strip_spec_table:
  "map (\<lambda>r. r ''Executive Name'') (rows (strip_columns spec_table)) = [Str ''Asha'']"
  by (simp add: strip_columns_def spec_table_def required_ar_cols_def spec_row_def strip_def
        is_space_def)

lemma executive_options_names:
  assumes "''Executive Name'' \<in> set (columns df)"
    and "distinct (columns df)"
  shows "executive_options df =
           (case sorted_cells (unique (dropna (map (\<lambda>r. r ''Executive Name'') (rows df)))) of
              Inl x \<Rightarrow> Inl x
            | Inr names \<Rightarrow> Inr (Str ''All'' # names))"
  using assms(1) count_list_distinct[OF assms(2), of "''Executive Name''"]
  by (simp add: executive_options_def)

lemma options_spec_table:
  "executive_options (ar_calculations parse (ar_df (loaded e spec_table x i)))
     = Inr [Str ''All'', Str ''Asha'']"
proof -
  let ?df = "ar_calculations parse (ar_df (loaded e spec_table x i))"
  have m: "''Executive Name'' \<in> set (columns ?df)"
    by (intro mem_columns_ar_calculations)
       (simp add: ar_df_loaded mem_columns_set_column columns_strip_spec_table
          required_ar_cols_def)
  have d: "distinct (columns ?df)"
    by (intro distinct_columns_ar_calculations)
       (simp add: ar_df_loaded distinct_columns_set_column columns_strip_spec_table
          distinct_required)
  have n: "map (\<lambda>r. r ''Executive Name'') (rows ?df) = [Str ''Asha'']"
    by (simp add: names_ar_calculations ar_df_loaded names_set_column_Month
          names_strip_spec_table)
  show ?thesis
    unfolding executive_options_names[OF m d] n
    by (simp add: dropna_def unique_def sorted_cells_def)
qed

lemma pipeline_spec_table:
  "pipeline parse (first_run (workbook_of spec_table x i) pg ch) =
     apply_filter ((loaded (first_run (workbook_of spec_table x i) pg ch) spec_table x i)
       \<lparr>ar_df := ar_calculations parse
                  (ar_df (loaded (first_run (workbook_of spec_table x i) pg ch) spec_table x i)),
        executives := [Str ''All'', Str ''Asha''],
        selected_exec := selectbox [Str ''All'', Str ''Asha''] ch\<rparr>)"
proof -
  let ?e = "first_run (workbook_of spec_table x i) pg ch"
  have "pipeline parse ?e =
     apply_filter ((loaded ?e spec_table x i)
       \<lparr>ar_df := ar_calculations parse (ar_df (loaded ?e spec_table x i)),
        executives := [Str ''All'', Str ''Asha''],
        selected_exec := selectbox [Str ''All'', Str ''Asha''] (exec_choice ?e)\<rparr>)"
  proof (rule pipeline_options[where wb = "workbook_of spec_table x i"])
    show "uploaded_file ?e = Some (workbook_of spec_table x i)" by (simp add: first_run_def)
    show "workbook_of spec_table x i ''AR_Aging'' = Some spec_table"
      by (simp add: workbook_of_def)
    show "workbook_of spec_table x i ''Executive_Targets'' = Some x"
      by (simp add: workbook_of_def)
    show "workbook_of spec_table x i ''Invoice_Details'' = Some i"
      by (simp add: workbook_of_def)
    show "month_input ?e \<noteq> []" by (simp add: first_run_def)
    show "first_missing (strip_columns spec_table) = None"
      by (rule first_missing_strip_spec_table)
    show "distinct (map strip (columns spec_table))"
      using distinct_required columns_strip_spec_table by (simp add: columns_strip_columns)
    show "rows spec_table \<noteq> []" by (simp add: spec_table_def)
    show "executive_options (ar_calculations parse (ar_df (loaded ?e spec_table x i)))
            = Inr [Str ''All'', Str ''Asha'']"
      by (rule options_spec_table)
  qed
  moreover have "exec_choice ?e = ch" by (simp add: first_run_def)
  ultimately show ?thesis by simp
qed

section \<open>Properties of the executive selector\<close>

lemma selectbox_All_NaN: "selectbox [Str ''All'', Str ''Asha''] NaN = Str ''All''"
  by simp

lemma pipeline_spec_workbook:
  "pipeline parse (first_run spec_workbook pg NaN) =
     Inr ((loaded (first_run spec_workbook pg NaN) spec_table targets_table invoices_table)
       \<lparr>ar_df := ar_calculations parse
                  (ar_df (loaded (first_run spec_workbook pg NaN)
                     spec_table targets_table invoices_table)),
        executives := [Str ''All'', Str ''Asha''],
        selected_exec := Str ''All''\<rparr>)"
  unfolding spec_workbook_def pipeline_spec_table selectbox_All_NaN
  by (simp add: apply_filter_def)

text \<open>
  Claim C9 fails as stated, in two ways. The options are drawn from the aging sheet alone:
  in the example workbook, Ravi has a target and an invoice and no row in the aging sheet,
  and the selector offers "All" and Asha only. And no option is offered at all where the
  names of the aging sheet are a text and a number, which \<^verbatim>\<open>sorted\<close> cannot compare.
\<close>

theorem name_outside_aging_sheet_counterexample:
  "(\<exists>e'. pipeline no_parse (first_run spec_workbook ''Overview Dashboard'' NaN) = Inr e' \<and>
         executives e' = [Str ''All'', Str ''Asha''] \<and> Str ''Ravi'' \<notin> set (executives e')) \<and>
   Str ''Ravi'' \<in> set (map (\<lambda>r. r ''Executive Name'') (rows targets_table)) \<and>
   Str ''Ravi'' \<in> set (map (\<lambda>r. r ''Executive Name'') (rows invoices_table)) \<and>
   first_missing staff_number_table = None \<and>
   executive_options staff_number_table = Inl TypeError"
proof -
  have "Str ''Ravi'' \<in> set (map (\<lambda>r. r ''Executive Name'') (rows targets_table))"
    by (simp add: targets_table_def)
  moreover have "Str ''Ravi'' \<in> set (map (\<lambda>r. r ''Executive Name'') (rows invoices_table))"
    by (simp add: invoices_table_def)
  moreover have f: "first_missing staff_number_table = None"
    by (simp add: first_missing_def staff_number_table_def find_None_iff)
  moreover have "executive_options staff_number_table = Inl TypeError"
  proof -
    have m: "''Executive Name'' \<in> set (columns staff_number_table)"
      using f by (rule first_missing_None) (simp add: required_ar_cols_def)
    have d: "distinct (columns staff_number_table)"
      by (simp add: staff_number_table_def distinct_required)
    have n: "map (\<lambda>r. r ''Executive Name'') (rows staff_number_table)
               = [Str ''Asha'', Num 1042]"
      by (simp add: staff_number_table_def spec_row_def credit_row_def)
    show ?thesis
      unfolding executive_options_names[OF m d] n
      by (simp add: dropna_def unique_def sorted_cells_def)
  qed
  ultimately show ?thesis
    by (simp add: pipeline_spec_workbook)
qed

text \<open>
  Claim C9, amended. On an aging table that has passed the validation and whose labels
  are distinct, the options of the selector, when the list is built, are "All" followed by
  the distinct non-missing entries of the executive-name column of the aging table, each
  once; and the list is built whenever these entries are all texts.
\<close>

theorem executive_options_from_aging_table:
  assumes "first_missing df = None"
    and "distinct (columns df)"
  shows "(\<forall>opts. executive_options df = Inr opts \<longrightarrow>
            (\<exists>names. opts = Str ''All'' # names \<and> distinct names \<and>
               set names = {c. c \<noteq> NaN \<and> (\<exists>r \<in> set (rows df). r ''Executive Name'' = c)})) \<and>
         ((\<forall>r \<in> set (rows df). r ''Executive Name'' = NaN \<or> is_text (r ''Executive Name'')) \<longrightarrow>
            (\<exists>opts. executive_options df = Inr opts))"
proof (intro conjI allI impI)
  have m: "''Executive Name'' \<in> set (columns df)"
    using assms(1) by (rule first_missing_None) (simp add: required_ar_cols_def)
  note eo = executive_options_names[OF m assms(2)]
  {
    fix opts assume "executive_options df = Inr opts"
    then obtain names where
      n: "sorted_cells (unique (dropna (map (\<lambda>r. r ''Executive Name'') (rows df)))) = Inr names"
      and o: "opts = Str ''All'' # names"
      by (auto simp: eo split: sum.splits)
    from sorted_cells_Inr[OF n]
    have "set names = set (dropna (map (\<lambda>r. r ''Executive Name'') (rows df)))"
      and "distinct names" by (simp_all add: set_unique distinct_unique)
    then show "\<exists>names. opts = Str ''All'' # names \<and> distinct names \<and>
               set names = {c. c \<noteq> NaN \<and> (\<exists>r \<in> set (rows df). r ''Executive Name'' = c)}"
      using o by (auto simp: set_dropna)
  }
  {
    assume a: "\<forall>r \<in> set (rows df). r ''Executive Name'' = NaN \<or> is_text (r ''Executive Name'')"
    have "list_all is_text (unique (dropna (map (\<lambda>r. r ''Executive Name'') (rows df))))"
      using a by (auto simp: list_all_iff set_unique set_dropna)
    then show "\<exists>opts. executive_options df = Inr opts"
      by (simp add: eo sorted_cells_def)
  }
qed

theorem executive_options_from_aging_table_witness:
  "first_missing two_rows_table = None \<and> distinct (columns two_rows_table) \<and>
   (\<exists>names. executive_options two_rows_table = Inr (Str ''All'' # names) \<and> distinct names \<and>
      set names = {Str ''Asha'', Str ''Ravi''})"
proof -
  have f: "first_missing two_rows_table = None"
    by (simp add: first_missing_def two_rows_table_def find_None_iff)
  have d: "distinct (columns two_rows_table)"
    by (simp add: two_rows_table_def distinct_required)
  have t: "\<forall>r \<in> set (rows two_rows_table).
             r ''Executive Name'' = NaN \<or> is_text (r ''Executive Name'')"
    by (simp add: two_rows_table_def spec_row_def credit_row_def)
  have s: "{c. c \<noteq> NaN \<and> (\<exists>r \<in> set (rows two_rows_table). r ''Executive Name'' = c)}
             = {Str ''Asha'', Str ''Ravi''}"
    by (auto simp: two_rows_table_def spec_row_def credit_row_def)
  from executive_options_from_aging_table[OF f d] t
  obtain opts where o: "executive_options two_rows_table = Inr opts" by blast
  with executive_options_from_aging_table[OF f d]
  obtain names where "opts = Str ''All'' # names" "distinct names"
    "set names = {c. c \<noteq> NaN \<and> (\<exists>r \<in> set (rows two_rows_table). r ''Executive Name'' = c)}"
    by blast
  with o s f d show ?thesis by simp
qed

section \<open>Properties of the validation\<close>




text \<open>
  Claim C10. The validation reads the aging table only: the other two tables have no say
  in whether it stops the run. With the example aging sheet, which passes it, a targets
  sheet without the executive-name column makes the filter of line 104 raise \<^verbatim>\<open>KeyError\<close>
  once an executive is picked, and a targets sheet without the target column makes line 158
  of the executive performance view raise \<^verbatim>\<open>KeyError\<close>; nothing catches either.
\<close>

theorem validation_reads_aging_table_only:
  "(\<forall>e x i h. (validate (e\<lparr>exec_df := x, inv_df := i\<rparr>) = Inl h) = (validate e = Inl h)) \<and>
   pipeline no_parse
     (first_run (workbook_of spec_table nameless_targets_table invoices_table)
        ''Overview Dashboard'' (Str ''Asha''))
     = Inl (Uncaught (KeyError ''Executive Name'')) \<and>
   script no_parse
     (first_run (workbook_of spec_table targetless_targets_table invoices_table)
        ''Executive Performance'' (Str ''All''))
     = Inl (Uncaught (KeyError ''Target Amount''))"
proof (intro conjI allI)
  fix e x i h
  show "(validate (e\<lparr>exec_df := x, inv_df := i\<rparr>) = Inl h) = (validate e = Inl h)"
    by (simp add: validate_def split: option.splits)
next
  let ?e = "first_run (workbook_of spec_table nameless_targets_table invoices_table)
        ''Overview Dashboard'' (Str ''Asha'')"
  let ?L = "loaded ?e spec_table nameless_targets_table invoices_table"
  have a: "''Executive Name'' \<in> set (columns (ar_calculations no_parse (ar_df ?L)))"
    by (intro mem_columns_ar_calculations)
       (simp add: ar_df_loaded mem_columns_set_column columns_strip_spec_table
          required_ar_cols_def)
  have x: "''Executive Name'' \<notin> set (columns (exec_df ?L))"
    by (simp add: exec_df_loaded columns_set_column columns_strip_columns
          nameless_targets_table_def strip_def is_space_def)
  show "pipeline no_parse ?e = Inl (Uncaught (KeyError ''Executive Name''))"
    unfolding pipeline_spec_table
    using a x by (simp add: apply_filter_def filter_exec_def uncaught_def and_then_def)
next
  let ?e = "first_run (workbook_of spec_table targetless_targets_table invoices_table)
        ''Executive Performance'' (Str ''All'')"
  let ?L = "loaded ?e spec_table targetless_targets_table invoices_table"
  have x: "''Target Amount'' \<notin> set (columns (exec_df ?L))"
    by (simp add: exec_df_loaded columns_set_column columns_strip_columns
          targetless_targets_table_def strip_def is_space_def)
  have u: "uploaded_file ?L \<noteq> None" and p: "page ?L = ''Executive Performance''"
    by (simp_all add: loaded_inputs first_run_def)
  show "script no_parse ?e = Inl (Uncaught (KeyError ''Target Amount''))"
    unfolding script_def pipeline_spec_table
    using x u p
    by (simp add: apply_filter_def and_then_def page_executive_performance_def
          executive_performance_def)
qed

section \<open>Runs on the same inputs\<close>

lemma loaded_same_inputs:
  assumes "same_inputs e1 e2"
  shows "loaded e2 a x i =
           (loaded e1 a x i)\<lparr>executives := executives e2, selected_exec := selected_exec e2\<rparr>"
  using assms
  by (intro env.equality)
     (simp_all add: same_inputs_def loaded_def attach_month_def clean_column_names_def)

lemma tail_independent:
  "and_then (validate (e\<lparr>executives := ex, selected_exec := s\<rparr>)) (\<lambda>e3.
     and_then (calculations parse e3) (\<lambda>e4.
     and_then (check_empty e4) (\<lambda>e5.
     and_then (select_executive e5) apply_filter))) =
   and_then (validate e) (\<lambda>e3.
     and_then (calculations parse e3) (\<lambda>e4.
     and_then (check_empty e4) (\<lambda>e5.
     and_then (select_executive e5) apply_filter)))"
proof (cases "first_missing (ar_df e)")
  case (Some c)
  then show ?thesis by (simp add: validate_def and_then_Inl)
next
  case None
  show ?thesis
  proof (cases "numeric_coercion parse (ar_df e)")
    case (Inl x)
    with None show ?thesis
      by (simp add: validate_def calculations_def and_then_Inr and_then_Inl)
  next
    case (Inr df)
    show ?thesis
    proof (cases "rows (derive_columns df) = []")
      case True
      with None Inr show ?thesis
        by (simp add: validate_def calculations_def check_empty_def and_then_Inr and_then_Inl)
    next
      case False
      with None Inr show ?thesis
        by (simp add: validate_def calculations_def check_empty_def select_executive_def
              and_then_Inr split: sum.splits)
    qed
  qed
qed

lemma pipeline_same_inputs:
  assumes "uploaded_file e1 = Some wb" and "same_inputs e1 e2"
  shows "pipeline parse e1 = pipeline parse e2"
proof -
  from assms have u2: "uploaded_file e2 = Some wb" and m: "month_input e2 = month_input e1"
    by (simp_all add: same_inputs_def)
  show ?thesis
  proof (cases "\<exists>a x i. wb ''AR_Aging'' = Some a \<and> wb ''Executive_Targets'' = Some x \<and>
      wb ''Invoice_Details'' = Some i")
    case False
    then have "load_data wb e1 = Inl ReadError" "load_data wb e2 = Inl ReadError"
      by (auto simp: load_data_def split: option.splits)
    then show ?thesis
      using assms(1) u2 by (simp add: pipeline_def and_then_Inl)
  next
    case True
    then obtain a x i where s: "wb ''AR_Aging'' = Some a" "wb ''Executive_Targets'' = Some x"
      "wb ''Invoice_Details'' = Some i" by blast
    show ?thesis
    proof (cases "month_input e1 = []")
      case True
      then show ?thesis
        using assms(1) u2 m s
        by (simp add: pipeline_def load_data_def and_then_def check_month_def
              clean_column_names_def)
    next
      case False
      with m have "month_input e2 \<noteq> []" by simp
      from pipeline_loaded[OF assms(1) s False] pipeline_loaded[OF u2 s this]
      show ?thesis
        by (simp add: loaded_same_inputs[OF assms(2)] tail_independent)
    qed
  qed
qed

lemma same_inputs_refl: "same_inputs e e"
  by (simp add: same_inputs_def)

lemma same_inputs_trans: "same_inputs a b \<Longrightarrow> same_inputs b c \<Longrightarrow> same_inputs a c"
  by (simp add: same_inputs_def)

lemma load_data_inputs: "load_data wb e = Inr e' \<Longrightarrow> same_inputs e e'"
  by (auto simp: load_data_def same_inputs_def split: option.splits)

lemma check_month_inputs: "check_month (clean_column_names e) = Inr e' \<Longrightarrow> same_inputs e e'"
  by (auto simp: check_month_def clean_column_names_def same_inputs_def split: if_splits)

lemma validate_inputs: "validate (attach_month e) = Inr e' \<Longrightarrow> same_inputs e e'"
  by (auto simp: validate_def attach_month_def same_inputs_def split: option.splits)

lemma calculations_inputs: "calculations parse e = Inr e' \<Longrightarrow> same_inputs e e'"
  by (auto simp: calculations_def same_inputs_def split: sum.splits)

lemma check_empty_inputs: "check_empty e = Inr e' \<Longrightarrow> same_inputs e e'"
  by (auto simp: check_empty_def same_inputs_def split: if_splits)

lemma select_executive_inputs: "select_executive e = Inr e' \<Longrightarrow> same_inputs e e'"
  by (auto simp: select_executive_def same_inputs_def split: sum.splits)

lemma apply_filter_inputs: "apply_filter e = Inr e' \<Longrightarrow> same_inputs e e'"
  by (auto simp: apply_filter_def and_then_def uncaught_def same_inputs_def
        split: if_splits sum.splits)

lemma pipeline_inputs:
  assumes "pipeline parse e = Inr e'"
  shows "same_inputs e e'"
proof (cases "uploaded_file e")
  case None
  with assms show ?thesis by (simp add: pipeline_def same_inputs_def)
next
  case (Some wb)
  with assms obtain e1 e2 e3 e4 e5 e6 where
    "load_data wb e = Inr e1"
    "check_month (clean_column_names e1) = Inr e2"
    "validate (attach_month e2) = Inr e3"
    "calculations parse e3 = Inr e4"
    "check_empty e4 = Inr e5"
    "select_executive e5 = Inr e6"
    "apply_filter e6 = Inr e'"
    by (auto simp: pipeline_def and_then_Inr_iff)
  then have "same_inputs e e1" "same_inputs e1 e2" "same_inputs e2 e3" "same_inputs e3 e4"
    "same_inputs e4 e5" "same_inputs e5 e6" "same_inputs e6 e'"
    by (simp_all add: load_data_inputs check_month_inputs validate_inputs calculations_inputs
          check_empty_inputs select_executive_inputs apply_filter_inputs)
  then show ?thesis
    by (meson same_inputs_trans)
qed

text \<open>
  Claim C8. What a run of the pipeline on an upload leaves depends on what the run is
  given, the upload, the month and the two other widgets, and not on the variables an
  earlier run has set; a run that is not stopped leaves what it was given as it was, and
  a second run on the state it leaves ends in that same state.
\<close>

theorem pipeline_deterministic_idempotent:
  assumes "uploaded_file e1 = Some wb"
    and "same_inputs e1 e2"
  shows "pipeline parse e1 = pipeline parse e2 \<and>
         (\<forall>e'. pipeline parse e1 = Inr e' \<longrightarrow>
            same_inputs e1 e' \<and> pipeline parse e' = Inr e')"
proof (intro conjI allI impI)
  show "pipeline parse e1 = pipeline parse e2"
    using assms by (rule pipeline_same_inputs)
next
  fix e' assume r: "pipeline parse e1 = Inr e'"
  then show "same_inputs e1 e'" by (rule pipeline_inputs)
  from pipeline_same_inputs[OF assms(1) this, of parse] r
  show "pipeline parse e' = Inr e'" by simp
qed

theorem pipeline_deterministic_idempotent_witness:
  "uploaded_file (first_run spec_workbook ''Overview Dashboard'' NaN) = Some spec_workbook \<and>
   same_inputs (first_run spec_workbook ''Overview Dashboard'' NaN) stale_run \<and>
   ar_df stale_run = credit_table \<and>
   pipeline no_parse (first_run spec_workbook ''Overview Dashboard'' NaN)
     = pipeline no_parse stale_run \<and>
   (\<exists>e'. pipeline no_parse stale_run = Inr e' \<and>
         executives e' = [Str ''All'', Str ''Asha''] \<and>
         pipeline no_parse e' = Inr e')"
proof -
  let ?e = "first_run spec_workbook ''Overview Dashboard'' NaN"
  have u: "uploaded_file ?e = Some spec_workbook" by (simp add: first_run_def)
  have si: "same_inputs ?e stale_run" by (simp add: same_inputs_def stale_run_def)
  have a: "ar_df stale_run = credit_table" by (simp add: stale_run_def)
  from pipeline_spec_workbook[of no_parse "''Overview Dashboard''"]
  obtain e' where e': "pipeline no_parse ?e = Inr e'"
    and rs: "executives e' = [Str ''All'', Str ''Asha'']"
    by simp
  from pipeline_deterministic_idempotent[OF u si, of no_parse] e'
  have "pipeline no_parse ?e = pipeline no_parse stale_run" and "pipeline no_parse e' = Inr e'"
    by simp_all
  with u si a e' rs show ?thesis by simp
qed

end
